theory Spec2Isabelle
  imports Complex_Main
begin

section \<open>GUSMap: scaled forward-algorithm likelihoods (src/src/likelihoods.c)\<close>

text \<open>
  The three entry points of likelihoods.c are embedded as HOL functions.
  Conventions of the embedding:
  \<^item> a C \<open>double\<close> is a \<open>real\<close>: the arithmetic is the exact arithmetic that the
    floating-point operations approximate; rounding, NaN and the infinities are not
    part of the model (\<open>x / 0\<close> and \<open>ln 0\<close> are ordinary reals here);
  \<^item> an array behind a bare pointer (\<open>REAL(x)\<close>, \<open>INTEGER(x)\<close>) is a total function
    from the index to the cell: the C code never consults a length;
  \<^item> loop counters and the sizes \<open>nInd_c\<close>, \<open>nSnps_c\<close> are naturals (the loops
    run over \<open>0 \<le> i < n\<close>), index products are assumed to fit a C \<open>int\<close>;
  \<^item> the OpenMP loops are read sequentially, as the file compiles without OpenMP.
\<close>

subsection \<open>Number of threads (lines 76-86 and 254-264)\<close>

text \<open>Line 30: without OpenMP, \<open>omp_get_max_threads\<close> returns 1.\<close>

definition omp_get_max_threads_fallback :: int where
  "omp_get_max_threads_fallback = 1"

text \<open>
  The block "set up number of threads": \<open>nThreads_c\<close> after the two tests, from the
  requested value \<open>asInteger(nThreads)\<close> and \<open>maxThreads = omp_get_max_threads()\<close>.
  Only comparisons and assignments of C \<open>int\<close>s occur, so \<open>int\<close> models them exactly.
\<close>

definition set_up_threads :: "int \<Rightarrow> int \<Rightarrow> int" where
  "set_up_threads maxThreads nThreads_c =
     (if nThreads_c \<le> 0 then maxThreads
      else if nThreads_c > maxThreads then maxThreads
      else nThreads_c)"

subsection \<open>Arrays, the power function and the functions of probFun.h\<close>

type_synonym dbl_array = "nat \<Rightarrow> real"
type_synonym int_array = "nat \<Rightarrow> int"

text \<open>
  \<open>pow\<close> of \<open>math.h\<close>, called with an \<open>int\<close> exponent (converted to \<open>double\<close>):
  repeated multiplication, with \<open>pow(x, 0) = 1\<close> for every \<open>x\<close>, and the reciprocal
  for a negative exponent.
\<close>

definition pow_c :: "real \<Rightarrow> int \<Rightarrow> real" where
  "pow_c x n = (if 0 \<le> n then x ^ nat n else 1 / x ^ nat (- n))"

text \<open>
  \<open>Qentry\<close>, \<open>Qentry_up\<close>, \<open>Tmat\<close> and \<open>Tmat_ss\<close> are declared in probFun.h, which
  is not among the sources. The likelihood functions take them as parameters:
  \<open>Q code Kaa Kab Kbb elem\<close> for \<open>Qentry(OPGP, Kaa, Kab, Kbb, elem)\<close> and
  \<open>Qentry_up(config, Kaa, Kab, Kbb, elem)\<close>, \<open>T s1 s2 rval\<close> for \<open>Tmat\<close> and
  \<open>Tss s1 s2 r1 r2\<close> for \<open>Tmat_ss\<close>.
\<close>

type_synonym qentry = "int \<Rightarrow> real \<Rightarrow> real \<Rightarrow> real \<Rightarrow> nat \<Rightarrow> real"
type_synonym tmat = "nat \<Rightarrow> nat \<Rightarrow> real \<Rightarrow> real"
type_synonym tmat_ss = "nat \<Rightarrow> nat \<Rightarrow> real \<Rightarrow> real \<Rightarrow> real"

subsection \<open>Density values for the emission probabilities\<close>

text \<open>
  Lines 93-99 of \<open>ll_fs_scaled_err_c\<close>: the body of the two nested loops, on the pair
  of tables \<open>(pKaa, pKbb)\<close>, and the loops themselves. The tables are variable-length
  arrays on the stack; their contents before the loops are the parameter \<open>K0\<close>.
\<close>

definition emission_cell_fs ::
  "dbl_array \<Rightarrow> dbl_array \<Rightarrow> int_array \<Rightarrow> int_array \<Rightarrow> nat \<Rightarrow> nat \<Rightarrow> nat
     \<Rightarrow> dbl_array \<times> dbl_array \<Rightarrow> dbl_array \<times> dbl_array" where
  "emission_cell_fs pbcoef_mat pep pref palt nInd_c ind snp K =
     (let index = ind + snp * nInd_c
      in ((fst K)(index := pbcoef_mat index * pow_c (1 - pep snp) (pref index)
                                            * pow_c (pep snp) (palt index)),
          (snd K)(index := pbcoef_mat index * pow_c (1 - pep snp) (palt index)
                                            * pow_c (pep snp) (pref index))))"

definition emission_tables_fs ::
  "dbl_array \<Rightarrow> dbl_array \<Rightarrow> int_array \<Rightarrow> int_array \<Rightarrow> nat \<Rightarrow> nat
     \<Rightarrow> dbl_array \<times> dbl_array \<Rightarrow> dbl_array \<times> dbl_array" where
  "emission_tables_fs pbcoef_mat pep pref palt nInd_c nSnps_c K0 =
     fold (\<lambda>ind. fold (emission_cell_fs pbcoef_mat pep pref palt nInd_c ind) [0..<nSnps_c])
          [0..<nInd_c] K0"

text \<open>
  Lines 267-274 of \<open>ll_fs_up_ss_scaled_err_c\<close>: one loop over the flat index, with the
  scalar error rate \<open>ep_c\<close>.
\<close>

definition emission_cell_up ::
  "dbl_array \<Rightarrow> real \<Rightarrow> int_array \<Rightarrow> int_array \<Rightarrow> nat
     \<Rightarrow> dbl_array \<times> dbl_array \<Rightarrow> dbl_array \<times> dbl_array" where
  "emission_cell_up pbcoef_mat ep_c pref palt i K =
     ((fst K)(i := pbcoef_mat i * pow_c (1 - ep_c) (pref i) * pow_c ep_c (palt i)),
      (snd K)(i := pbcoef_mat i * pow_c (1 - ep_c) (palt i) * pow_c ep_c (pref i)))"

definition emission_tables_up ::
  "dbl_array \<Rightarrow> real \<Rightarrow> int_array \<Rightarrow> int_array \<Rightarrow> nat \<Rightarrow> nat
     \<Rightarrow> dbl_array \<times> dbl_array \<Rightarrow> dbl_array \<times> dbl_array" where
  "emission_tables_up pbcoef_mat ep_c pref palt nInd_c nSnps_c K0 =
     (let size = nSnps_c * nInd_c
      in fold (emission_cell_up pbcoef_mat ep_c pref palt) [0..<size] K0)"

subsection \<open>The forward recursion of one individual\<close>

text \<open>
  The local variables of the likelihood loop. \<open>sum_v\<close> is the C variable \<open>sum\<close>.
\<close>

record fwd =
  alphaTilde :: "nat \<Rightarrow> real"
  alphaDot :: "nat \<Rightarrow> real"
  sum_v :: real
  w_new :: real
  llval :: real

text \<open>
  "Compute forward probabilities at snp 1", "Scale forward probabilities" and
  "add contribution to likelihood" (lines 106-120, 181-194, 283-297). The three
  functions differ only in the emission lookup; \<open>q s1\<close> stands for the call
  \<open>Qentry(pOPGP[0], pKaa[ind], pKab[ind], pKbb[ind], s1+1)\<close>.
\<close>

definition forward_first :: "(nat \<Rightarrow> real) \<Rightarrow> fwd \<Rightarrow> fwd" where
  "forward_first q st =
     (let st1 = fold (\<lambda>s1 st. let st' = st\<lparr>alphaDot := (alphaDot st)(s1 := 0.25 * q s1)\<rparr>
                               in st'\<lparr>sum_v := sum_v st' + alphaDot st' s1\<rparr>)
                     [0..<4] (st\<lparr>sum_v := 0\<rparr>);
          st2 = fold (\<lambda>s1 st. st\<lparr>alphaTilde := (alphaTilde st)(s1 := alphaDot st s1 / sum_v st)\<rparr>)
                     [0..<4] st1
      in st2\<lparr>llval := llval st2 + ln (sum_v st2)\<rparr>)"

text \<open>
  The body of the loop over the remaining SNPs (lines 124-144, 198-217, 301-321):
  \<open>t s1 s2\<close> stands for the transition call at this SNP and \<open>q s2\<close> for the emission
  lookup at this SNP.
\<close>

definition forward_next :: "(nat \<Rightarrow> nat \<Rightarrow> real) \<Rightarrow> (nat \<Rightarrow> real) \<Rightarrow> fwd \<Rightarrow> fwd" where
  "forward_next t q st =
     (let st1 = fold (\<lambda>s2 st.
                   let st' = fold (\<lambda>s1 st. st\<lparr>sum_v := sum_v st + t s1 s2 * alphaTilde st s1\<rparr>)
                                  [0..<4] (st\<lparr>sum_v := 0\<rparr>)
                   in st'\<lparr>alphaDot := (alphaDot st')(s2 := q s2 * sum_v st')\<rparr>)
                 [0..<4] st;
          st2 = fold (\<lambda>s2 st. st\<lparr>w_new := w_new st + alphaDot st s2\<rparr>) [0..<4] (st1\<lparr>w_new := 0\<rparr>);
          st3 = st2\<lparr>llval := llval st2 + ln (w_new st2)\<rparr>
      in fold (\<lambda>s2 st. st\<lparr>alphaTilde := (alphaTilde st)(s2 := alphaDot st s2 / w_new st)\<rparr>)
              [0..<4] st3)"

text \<open>
  The body of the loop over individuals in \<open>ll_fs_scaled_err_c\<close> (lines 105-145).
\<close>

definition individual_fs ::
  "qentry \<Rightarrow> tmat \<Rightarrow> dbl_array \<Rightarrow> int_array \<Rightarrow> dbl_array \<Rightarrow> dbl_array \<Rightarrow> dbl_array
     \<Rightarrow> nat \<Rightarrow> nat \<Rightarrow> nat \<Rightarrow> fwd \<Rightarrow> fwd" where
  "individual_fs Q T pr pOPGP pKaa pKab pKbb nInd_c nSnps_c ind st =
     fold (\<lambda>snp. forward_next
                   (\<lambda>s1 s2. T s1 s2 (pr (snp - 1)))
                   (\<lambda>s2. Q (pOPGP snp) (pKaa (ind + nInd_c * snp)) (pKab (ind + nInd_c * snp))
                            (pKbb (ind + nInd_c * snp)) (s2 + 1)))
          [1..<nSnps_c]
          (forward_first (\<lambda>s1. Q (pOPGP 0) (pKaa ind) (pKab ind) (pKbb ind) (s1 + 1)) st)"

text \<open>
  The body of the loop over individuals in \<open>ll_fs_ss_scaled_err_c\<close> (lines 180-218)
  and in \<open>ll_fs_up_ss_scaled_err_c\<close> (lines 282-322); the two are the same text up to
  the names \<open>Qentry\<close>/\<open>pOPGP\<close> and \<open>Qentry_up\<close>/\<open>pconfig\<close>, which are the parameters
  \<open>Q\<close> and \<open>pcode\<close> here.
\<close>

definition individual_ss ::
  "qentry \<Rightarrow> tmat_ss \<Rightarrow> dbl_array \<Rightarrow> int_array \<Rightarrow> dbl_array \<Rightarrow> dbl_array \<Rightarrow> dbl_array
     \<Rightarrow> nat \<Rightarrow> nat \<Rightarrow> nat \<Rightarrow> fwd \<Rightarrow> fwd" where
  "individual_ss Q Tss pr pcode pKaa pKab pKbb nInd_c nSnps_c ind st =
     fold (\<lambda>snp. forward_next
                   (\<lambda>s1 s2. Tss s1 s2 (pr (snp - 1)) (pr (snp - 1 + nSnps_c - 1)))
                   (\<lambda>s2. Q (pcode snp) (pKaa (ind + nInd_c * snp)) (pKab (ind + nInd_c * snp))
                            (pKbb (ind + nInd_c * snp)) (s2 + 1)))
          [1..<nSnps_c]
          (forward_first (\<lambda>s1. Q (pcode 0) (pKaa ind) (pKab ind) (pKbb ind) (s1 + 1)) st)"

subsection \<open>The three likelihood functions\<close>

text \<open>
  The C code initialises neither the variable-length arrays \<open>pKaa\<close>, \<open>pKbb\<close> nor the
  locals \<open>alphaTilde\<close>, \<open>alphaDot\<close>, \<open>sum\<close>, \<open>w_new\<close>. What these hold before their
  first write is a parameter of each function: \<open>K0\<close> for the pair of tables and \<open>st0\<close>
  for the locals (of which only \<open>llval\<close> is initialised, to 0).

  \<open>ll_fs_scaled_err_c\<close> (lines 53-152). \<open>maxThreads\<close> is the value of
  \<open>omp_get_max_threads()\<close>; \<open>nThreads_c\<close> only feeds the \<open>num_threads\<close> clauses.
\<close>

definition ll_fs_scaled_err_c ::
  "qentry \<Rightarrow> tmat \<Rightarrow> int \<Rightarrow> dbl_array \<times> dbl_array \<Rightarrow> fwd
     \<Rightarrow> dbl_array \<Rightarrow> dbl_array \<Rightarrow> int_array \<Rightarrow> int_array \<Rightarrow> dbl_array
     \<Rightarrow> dbl_array \<Rightarrow> int_array \<Rightarrow> nat \<Rightarrow> nat \<Rightarrow> int \<Rightarrow> real" where
  "ll_fs_scaled_err_c Qentry Tmat maxThreads K0 st0 r ep ref alt bcoef_mat Kab OPGP nInd nSnps nThreads =
     (let nThreads_c = set_up_threads maxThreads nThreads;
          K = emission_tables_fs bcoef_mat ep ref alt nInd nSnps K0;
          st = fold (individual_fs Qentry Tmat r OPGP (fst K) Kab (snd K) nInd nSnps)
                    [0..<nInd] (st0\<lparr>llval := 0\<rparr>)
      in -1 * llval st)"

text \<open>\<open>ll_fs_ss_scaled_err_c\<close> (lines 158-225): the tables are arguments.\<close>

definition ll_fs_ss_scaled_err_c ::
  "qentry \<Rightarrow> tmat_ss \<Rightarrow> fwd \<Rightarrow> dbl_array \<Rightarrow> dbl_array \<Rightarrow> dbl_array \<Rightarrow> dbl_array \<Rightarrow> int_array
     \<Rightarrow> nat \<Rightarrow> nat \<Rightarrow> real" where
  "ll_fs_ss_scaled_err_c Qentry Tmat_ss st0 r Kaa Kab Kbb OPGP nInd nSnps =
     (let st = fold (individual_ss Qentry Tmat_ss r OPGP Kaa Kab Kbb nInd nSnps)
                    [0..<nInd] (st0\<lparr>llval := 0\<rparr>)
      in -1 * llval st)"

text \<open>
  \<open>ll_fs_up_ss_scaled_err_c\<close> (lines 232-329): \<open>alphaTilde\<close>, \<open>alphaDot\<close>, \<open>sum\<close> and
  \<open>w_new\<close> are declared inside the loop body, so each individual starts from its own
  uninitialised locals, \<open>sts ind\<close>, and only \<open>llval\<close> is carried over.
\<close>

definition ll_fs_up_ss_scaled_err_c ::
  "qentry \<Rightarrow> tmat_ss \<Rightarrow> int \<Rightarrow> dbl_array \<times> dbl_array \<Rightarrow> (nat \<Rightarrow> fwd)
     \<Rightarrow> dbl_array \<Rightarrow> dbl_array \<Rightarrow> real \<Rightarrow> int_array \<Rightarrow> int_array
     \<Rightarrow> dbl_array \<Rightarrow> int_array \<Rightarrow> nat \<Rightarrow> nat \<Rightarrow> int \<Rightarrow> real" where
  "ll_fs_up_ss_scaled_err_c Qentry_up Tmat_ss maxThreads K0 sts r bcoef_mat ep ref alt Kab config nInd nSnps nThreads =
     (let nThreads_c = set_up_threads maxThreads nThreads;
          K = emission_tables_up bcoef_mat ep ref alt nInd nSnps K0;
          ll = fold (\<lambda>ind ll. llval (individual_ss Qentry_up Tmat_ss r config (fst K) Kab (snd K)
                                       nInd nSnps ind ((sts ind)\<lparr>llval := ll\<rparr>)))
                    [0..<nInd] 0
      in -1 * ll)"

subsection \<open>The forward recursion as the specification words it\<close>

text \<open>
  The recursion of section 4.3 of the specification, for one individual: \<open>em l s\<close> is
  the emission of hidden state \<open>s\<close> at marker \<open>l + 1\<close>, \<open>tr l s1 s2\<close> the transition from
  \<open>s1\<close> to \<open>s2\<close> over the gap between markers \<open>l + 1\<close> and \<open>l + 2\<close>. \<open>spec_forward em tr l\<close>
  is the pair of the rescaled forward vector and the accumulator after marker \<open>l + 1\<close>.
\<close>

primrec spec_forward ::
  "(nat \<Rightarrow> nat \<Rightarrow> real) \<Rightarrow> (nat \<Rightarrow> nat \<Rightarrow> nat \<Rightarrow> real) \<Rightarrow> nat \<Rightarrow> (nat \<Rightarrow> real) \<times> real" where
  "spec_forward em tr 0 =
     (let aDot = (\<lambda>s. 0.25 * em 0 s);
          sm = (\<Sum>s<4. aDot s)
      in (\<lambda>s. aDot s / sm, ln sm))"
| "spec_forward em tr (Suc l) =
     (let aTilde = fst (spec_forward em tr l);
          acc = snd (spec_forward em tr l);
          aDot = (\<lambda>s2. em (Suc l) s2 * (\<Sum>s1<4. tr l s1 s2 * aTilde s1));
          w = (\<Sum>s2<4. aDot s2)
      in (\<lambda>s2. aDot s2 / w, acc + ln w))"

text \<open>
  The flat index of the cell of individual \<open>ind\<close> and marker \<open>snp\<close> in the
  individual-major layout, and the emission lookup of the specification at that cell:
  the phase or configuration code of the marker selects among the three densities of
  the cell.
\<close>

definition cell :: "nat \<Rightarrow> nat \<Rightarrow> nat \<Rightarrow> nat" where
  "cell nInd ind snp = ind + snp * nInd"

definition spec_emission ::
  "qentry \<Rightarrow> int_array \<Rightarrow> dbl_array \<Rightarrow> dbl_array \<Rightarrow> dbl_array \<Rightarrow> nat \<Rightarrow> nat \<Rightarrow> nat \<Rightarrow> nat \<Rightarrow> real" where
  "spec_emission Q pcode pKaa pKab pKbb nInd ind l s =
     Q (pcode l) (pKaa (cell nInd ind l)) (pKab (cell nInd ind l)) (pKbb (cell nInd ind l)) (s + 1)"

text \<open>
  The two densities of section 4.1 of the specification, for one cell.
\<close>

definition Kaa_density :: "real \<Rightarrow> real \<Rightarrow> int \<Rightarrow> int \<Rightarrow> real" where
  "Kaa_density bcoef ep ref alt = bcoef * pow_c (1 - ep) ref * pow_c ep alt"

definition Kbb_density :: "real \<Rightarrow> real \<Rightarrow> int \<Rightarrow> int \<Rightarrow> real" where
  "Kbb_density bcoef ep ref alt = bcoef * pow_c (1 - ep) alt * pow_c ep ref"

text \<open>
  The run of one individual with the emission lookup and the transition call as
  functions of the SNP: the common shape of \<open>individual_fs\<close> and \<open>individual_ss\<close>,
  used to reason about both at once.
\<close>

definition forward_run ::
  "(nat \<Rightarrow> nat \<Rightarrow> real) \<Rightarrow> (nat \<Rightarrow> nat \<Rightarrow> nat \<Rightarrow> real) \<Rightarrow> nat \<Rightarrow> fwd \<Rightarrow> fwd" where
  "forward_run em tr nSnps_c st =
     fold (\<lambda>snp. forward_next (tr (snp - 1)) (em snp)) [1..<nSnps_c] (forward_first (em 0) st)"

text \<open>
  The data of one individual alone, as arrays of a family of one individual.
\<close>

definition column :: "nat \<Rightarrow> nat \<Rightarrow> (nat \<Rightarrow> 'a) \<Rightarrow> nat \<Rightarrow> 'a" where
  "column nInd ind a snp = a (cell nInd ind snp)"

text \<open>
  The emission lookup of the specification for the functions that build the tables
  themselves: the densities of the cell are computed from the counts, the coefficient
  and the error rate \<open>ep l\<close> of the marker.
\<close>

definition spec_emission_err ::
  "qentry \<Rightarrow> int_array \<Rightarrow> dbl_array \<Rightarrow> (nat \<Rightarrow> real) \<Rightarrow> int_array \<Rightarrow> int_array \<Rightarrow> dbl_array
     \<Rightarrow> nat \<Rightarrow> nat \<Rightarrow> nat \<Rightarrow> nat \<Rightarrow> real" where
  "spec_emission_err Q pcode bcoef ep ref alt Kab nInd ind l s =
     (let c = cell nInd ind l
      in Q (pcode l) (Kaa_density (bcoef c) (ep l) (ref c) (alt c)) (Kab c)
           (Kbb_density (bcoef c) (ep l) (ref c) (alt c)) (s + 1))"

subsection \<open>The transition model\<close>

text \<open>
  Modelled from the spec: \<open>Tmat\<close> and \<open>Tmat_ss\<close> are defined in the support module
  behind probFun.h, which is missing from the sources. Section 4.2 of the
  specification: the four hidden states decompose as (paternal-origin bit,
  maternal-origin bit), and the transition probability is the product of two
  independent bit-flip probabilities, each bit flipping with probability \<open>r\<close> and
  staying with probability \<open>1 - r\<close>; in the sex-specific variant \<open>r_pat\<close> governs the
  paternal bit and \<open>r_mat\<close> the maternal bit. The specification does not say which
  state carries which bits; state \<open>s\<close> is taken as \<open>2 * paternal + maternal\<close>.
\<close>

definition pat_origin :: "nat \<Rightarrow> nat" where
  "pat_origin s = s div 2"

definition mat_origin :: "nat \<Rightarrow> nat" where
  "mat_origin s = s mod 2"

definition origin_switch :: "real \<Rightarrow> nat \<Rightarrow> nat \<Rightarrow> real" where
  "origin_switch r b1 b2 = (if b1 = b2 then 1 - r else r)"

definition Tmat :: tmat where
  "Tmat s1 s2 rval = origin_switch rval (pat_origin s1) (pat_origin s2)
                   * origin_switch rval (mat_origin s1) (mat_origin s2)"

definition Tmat_ss :: tmat_ss where
  "Tmat_ss s1 s2 r_pat r_mat = origin_switch r_pat (pat_origin s1) (pat_origin s2)
                             * origin_switch r_mat (mat_origin s1) (mat_origin s2)"

subsection \<open>The parameter lists\<close>

text \<open>
  The formal parameters of the three entry points, in the order of their declarations
  (lines 53-54, 158 and 232).
\<close>

definition ll_fs_scaled_err_c_params :: "string list" where
  "ll_fs_scaled_err_c_params =
     [''r'', ''ep'', ''ref'', ''alt'', ''bcoef_mat'', ''Kab'', ''OPGP'', ''nInd'', ''nSnps'', ''nThreads'']"

definition ll_fs_ss_scaled_err_c_params :: "string list" where
  "ll_fs_ss_scaled_err_c_params =
     [''r'', ''Kaa'', ''Kab'', ''Kbb'', ''OPGP'', ''nInd'', ''nSnps'']"

definition ll_fs_up_ss_scaled_err_c_params :: "string list" where
  "ll_fs_up_ss_scaled_err_c_params =
     [''r'', ''bcoef_mat'', ''ep'', ''ref'', ''alt'', ''Kab'', ''config'', ''nInd'', ''nSnps'', ''nThreads'']"

section \<open>Theorems\<close>

subsection \<open>The inner loops\<close>

lemma upt_0_4: "[0..<4] = [0, 1, 2, 3::nat]"
  by (simp add: upt_rec)

lemma sum_lessThan_4: "(\<Sum>s<4. f s) = f 0 + f 1 + f 2 + (f (3::nat) :: real)"
  by (simp add: numeral_eq_Suc)

lemma lt4_cases: "s < 4 \<Longrightarrow> s = 0 \<or> s = 1 \<or> s = 2 \<or> s = (3::nat)"
  by arith

lemma forward_first_sum_v:
  "sum_v (forward_first q st) = (\<Sum>s<4. 0.25 * q s)"
  by (simp add: forward_first_def upt_0_4 sum_lessThan_4)

lemma forward_first_llval:
  "llval (forward_first q st) = llval st + ln (\<Sum>s<4. 0.25 * q s)"
  by (simp add: forward_first_def upt_0_4 sum_lessThan_4)

lemma forward_first_alphaDot:
  "s < 4 \<Longrightarrow> alphaDot (forward_first q st) s = 0.25 * q s"
  by (drule lt4_cases) (auto simp add: forward_first_def upt_0_4)

lemma forward_first_alphaTilde:
  "s < 4 \<Longrightarrow> alphaTilde (forward_first q st) s = 0.25 * q s / (\<Sum>s<4. 0.25 * q s)"
  by (drule lt4_cases) (auto simp add: forward_first_def upt_0_4 sum_lessThan_4)

lemma forward_next_alphaDot:
  "s < 4 \<Longrightarrow> alphaDot (forward_next t q st) s = q s * (\<Sum>s1<4. t s1 s * alphaTilde st s1)"
  by (drule lt4_cases) (auto simp add: forward_next_def upt_0_4 sum_lessThan_4)

lemma forward_next_w_new:
  "w_new (forward_next t q st) = (\<Sum>s2<4. q s2 * (\<Sum>s1<4. t s1 s2 * alphaTilde st s1))"
  by (simp add: forward_next_def upt_0_4 sum_lessThan_4)

lemma forward_next_llval:
  "llval (forward_next t q st) = llval st + ln (\<Sum>s2<4. q s2 * (\<Sum>s1<4. t s1 s2 * alphaTilde st s1))"
  by (simp add: forward_next_def upt_0_4 sum_lessThan_4)

lemma forward_next_alphaTilde:
  "s < 4 \<Longrightarrow> alphaTilde (forward_next t q st) s =
     q s * (\<Sum>s1<4. t s1 s * alphaTilde st s1) / (\<Sum>s2<4. q s2 * (\<Sum>s1<4. t s1 s2 * alphaTilde st s1))"
  by (drule lt4_cases) (auto simp add: forward_next_def upt_0_4 sum_lessThan_4)

lemma forward_run_first: "n \<le> 1 \<Longrightarrow> forward_run em tr n st = forward_first (em 0) st"
  by (simp add: forward_run_def)

lemma forward_run_next:
  "1 \<le> n \<Longrightarrow> forward_run em tr (Suc n) st = forward_next (tr (n - 1)) (em n) (forward_run em tr n st)"
  by (simp add: forward_run_def)

lemma forward_run_spec:
  "llval (forward_run em tr (Suc l) st) = llval st + snd (spec_forward em tr l)
   \<and> (\<forall>s<4. alphaTilde (forward_run em tr (Suc l) st) s = fst (spec_forward em tr l) s)"
proof (induction l)
  case 0
  show ?case
    by (simp add: forward_run_first forward_first_llval forward_first_alphaTilde Let_def)
next
  case (Suc l)
  let ?st = "forward_run em tr (Suc l) st"
  from Suc have ll: "llval ?st = llval st + snd (spec_forward em tr l)"
    and aT: "\<And>s. s < 4 \<Longrightarrow> alphaTilde ?st s = fst (spec_forward em tr l) s"
    by simp_all
  have inner: "\<And>s2. (\<Sum>s1<4. tr l s1 s2 * alphaTilde ?st s1)
                    = (\<Sum>s1<4. tr l s1 s2 * fst (spec_forward em tr l) s1)"
    by (rule sum.cong) (simp_all add: aT)
  have step: "forward_run em tr (Suc (Suc l)) st = forward_next (tr l) (em (Suc l)) ?st"
    by (simp add: forward_run_next)
  show ?case
    unfolding step
    by (simp add: forward_next_llval forward_next_alphaTilde inner ll Let_def)
qed

lemma forward_run_nSnps:
  "forward_run em tr nSnps st = forward_run em tr (Suc (nSnps - 1)) st"
  by (cases nSnps) (simp_all add: forward_run_def)

lemma forward_run_llval:
  "llval (forward_run em tr nSnps st) = llval st + snd (spec_forward em tr (nSnps - 1))"
  using forward_run_spec [of em tr "nSnps - 1" st] forward_run_nSnps [of em tr nSnps st]
  by simp

lemma forward_run_alphaTilde:
  "s < 4 \<Longrightarrow> alphaTilde (forward_run em tr nSnps st) s = fst (spec_forward em tr (nSnps - 1)) s"
  using forward_run_spec [of em tr "nSnps - 1" st] forward_run_nSnps [of em tr nSnps st]
  by simp

lemma individual_fs_run:
  "individual_fs Q T pr pOPGP pKaa pKab pKbb nInd nSnps ind st
     = forward_run (spec_emission Q pOPGP pKaa pKab pKbb nInd ind) (\<lambda>l s1 s2. T s1 s2 (pr l)) nSnps st"
proof -
  have e0: "(\<lambda>s1. Q (pOPGP 0) (pKaa ind) (pKab ind) (pKbb ind) (s1 + 1))
            = spec_emission Q pOPGP pKaa pKab pKbb nInd ind 0"
    by (rule ext) (simp add: spec_emission_def cell_def)
  have e: "\<And>snp. (\<lambda>s2. Q (pOPGP snp) (pKaa (ind + nInd * snp)) (pKab (ind + nInd * snp))
                            (pKbb (ind + nInd * snp)) (s2 + 1))
            = spec_emission Q pOPGP pKaa pKab pKbb nInd ind snp"
    by (rule ext) (simp add: spec_emission_def cell_def mult.commute)
  show ?thesis
    unfolding individual_fs_def forward_run_def e0 e ..
qed

lemma individual_ss_run:
  "individual_ss Q Tss pr pcode pKaa pKab pKbb nInd nSnps ind st
     = forward_run (spec_emission Q pcode pKaa pKab pKbb nInd ind)
                   (\<lambda>l s1 s2. Tss s1 s2 (pr l) (pr (l + nSnps - 1))) nSnps st"
proof -
  have e0: "(\<lambda>s1. Q (pcode 0) (pKaa ind) (pKab ind) (pKbb ind) (s1 + 1))
            = spec_emission Q pcode pKaa pKab pKbb nInd ind 0"
    by (rule ext) (simp add: spec_emission_def cell_def)
  have e: "\<And>snp. (\<lambda>s2. Q (pcode snp) (pKaa (ind + nInd * snp)) (pKab (ind + nInd * snp))
                            (pKbb (ind + nInd * snp)) (s2 + 1))
            = spec_emission Q pcode pKaa pKab pKbb nInd ind snp"
    by (rule ext) (simp add: spec_emission_def cell_def mult.commute)
  show ?thesis
    unfolding individual_ss_def forward_run_def e0 e
    by (rule fold_cong) (auto simp del: upt_Suc)
qed

subsection \<open>The emission tables\<close>

lemma cell_div: "ind < nInd \<Longrightarrow> cell nInd ind snp div nInd = snp"
  by (simp add: cell_def)

lemma cell_mod: "ind < nInd \<Longrightarrow> cell nInd ind snp mod nInd = ind"
  by (simp add: cell_def)

lemma cell_eq_iff:
  assumes "ind < nInd"
  shows "j = cell nInd ind snp \<longleftrightarrow> j mod nInd = ind \<and> j div nInd = snp"
proof
  assume "j = cell nInd ind snp"
  with assms show "j mod nInd = ind \<and> j div nInd = snp" by (simp add: cell_def)
next
  assume "j mod nInd = ind \<and> j div nInd = snp"
  then have "ind + snp * nInd = j mod nInd + j div nInd * nInd" by simp
  also have "\<dots> = j" by simp
  finally show "j = cell nInd ind snp" by (simp add: cell_def)
qed

lemma cell_less: "ind < nInd \<Longrightarrow> snp < nSnps \<Longrightarrow> cell nInd ind snp < nSnps * nInd"
proof -
  assume a: "ind < nInd" "snp < nSnps"
  then have "ind + snp * nInd < nInd + snp * nInd" by simp
  also have "\<dots> = Suc snp * nInd" by simp
  also from a have "\<dots> \<le> nSnps * nInd" by (intro mult_le_mono1) simp
  finally show ?thesis by (simp add: cell_def)
qed

lemma emission_cell_fs_apply:
  assumes "ind < nInd"
  shows "emission_cell_fs pbcoef pep pref palt nInd ind n (A, B) =
     ((\<lambda>j. if j mod nInd = ind \<and> j div nInd = n
            then Kaa_density (pbcoef j) (pep (j div nInd)) (pref j) (palt j) else A j),
      (\<lambda>j. if j mod nInd = ind \<and> j div nInd = n
            then Kbb_density (pbcoef j) (pep (j div nInd)) (pref j) (palt j) else B j))"
  using cell_eq_iff [OF assms, of _ n]
  by (auto simp add: emission_cell_fs_def Let_def fun_eq_iff Kaa_density_def Kbb_density_def cell_def)

lemma emission_row_fs:
  assumes "ind < nInd"
  shows "fold (emission_cell_fs pbcoef pep pref palt nInd ind) [0..<n] K =
     ((\<lambda>j. if j mod nInd = ind \<and> j div nInd < n
            then Kaa_density (pbcoef j) (pep (j div nInd)) (pref j) (palt j) else fst K j),
      (\<lambda>j. if j mod nInd = ind \<and> j div nInd < n
            then Kbb_density (pbcoef j) (pep (j div nInd)) (pref j) (palt j) else snd K j))"
    (is "fold ?F [0..<n] K = (?A n, ?B n)")
proof (induction n)
  case 0
  show ?case by simp
next
  case (Suc n)
  have "fold ?F [0..<Suc n] K = ?F n (fold ?F [0..<n] K)" by simp
  also have "\<dots> = ?F n (?A n, ?B n)" by (simp only: Suc)
  also have "\<dots> = (?A (Suc n), ?B (Suc n))"
    unfolding emission_cell_fs_apply [OF assms]
    by (auto simp add: fun_eq_iff less_Suc_eq)
  finally show ?case .
qed

lemma emission_tables_fs_upto:
  assumes "m \<le> nInd"
  shows "fold (\<lambda>ind. fold (emission_cell_fs pbcoef pep pref palt nInd ind) [0..<nSnps]) [0..<m] K =
     ((\<lambda>j. if j mod nInd < m \<and> j div nInd < nSnps
            then Kaa_density (pbcoef j) (pep (j div nInd)) (pref j) (palt j) else fst K j),
      (\<lambda>j. if j mod nInd < m \<and> j div nInd < nSnps
            then Kbb_density (pbcoef j) (pep (j div nInd)) (pref j) (palt j) else snd K j))"
    (is "fold ?F [0..<m] K = (?A m, ?B m)")
  using assms
proof (induction m)
  case 0
  show ?case by simp
next
  case (Suc m)
  then have m: "m < nInd" and IH: "fold ?F [0..<m] K = (?A m, ?B m)"
    by simp_all
  have "fold ?F [0..<Suc m] K = ?F m (fold ?F [0..<m] K)" by simp
  also have "\<dots> = ?F m (?A m, ?B m)" by (simp only: IH)
  also have "\<dots> = (?A (Suc m), ?B (Suc m))"
    unfolding emission_row_fs [OF m]
    by (auto simp add: fun_eq_iff less_Suc_eq)
  finally show ?case .
qed

lemma emission_tables_fs_cells:
  "fst (emission_tables_fs pbcoef pep pref palt nInd nSnps K) j =
     (if 0 < nInd \<and> j div nInd < nSnps
      then Kaa_density (pbcoef j) (pep (j div nInd)) (pref j) (palt j) else fst K j)"
  "snd (emission_tables_fs pbcoef pep pref palt nInd nSnps K) j =
     (if 0 < nInd \<and> j div nInd < nSnps
      then Kbb_density (pbcoef j) (pep (j div nInd)) (pref j) (palt j) else snd K j)"
  by (simp_all add: emission_tables_fs_def emission_tables_fs_upto)

lemma emission_cell_up_apply:
  "emission_cell_up pbcoef ep pref palt n (A, B) =
     ((\<lambda>j. if j = n then Kaa_density (pbcoef j) ep (pref j) (palt j) else A j),
      (\<lambda>j. if j = n then Kbb_density (pbcoef j) ep (pref j) (palt j) else B j))"
  by (auto simp add: emission_cell_up_def fun_eq_iff Kaa_density_def Kbb_density_def)

lemma emission_tables_up_upto:
  "fold (emission_cell_up pbcoef ep pref palt) [0..<n] K =
     ((\<lambda>j. if j < n then Kaa_density (pbcoef j) ep (pref j) (palt j) else fst K j),
      (\<lambda>j. if j < n then Kbb_density (pbcoef j) ep (pref j) (palt j) else snd K j))"
    (is "fold ?F [0..<n] K = (?A n, ?B n)")
proof (induction n)
  case 0
  show ?case by simp
next
  case (Suc n)
  have "fold ?F [0..<Suc n] K = ?F n (fold ?F [0..<n] K)" by simp
  also have "\<dots> = ?F n (?A n, ?B n)" by (simp only: Suc)
  also have "\<dots> = (?A (Suc n), ?B (Suc n))"
    unfolding emission_cell_up_apply
    by (auto simp add: fun_eq_iff less_Suc_eq)
  finally show ?case .
qed

lemma emission_tables_up_cells:
  "fst (emission_tables_up pbcoef ep pref palt nInd nSnps K) j =
     (if j < nSnps * nInd then Kaa_density (pbcoef j) ep (pref j) (palt j) else fst K j)"
  "snd (emission_tables_up pbcoef ep pref palt nInd nSnps K) j =
     (if j < nSnps * nInd then Kbb_density (pbcoef j) ep (pref j) (palt j) else snd K j)"
  by (simp_all add: emission_tables_up_def emission_tables_up_upto Let_def)

subsection \<open>The loop over individuals\<close>

lemma fold_individuals_llval:
  assumes "\<And>ind st. llval (f ind st) = llval st + c ind"
  shows "llval (fold f [0..<m] st) = llval st + (\<Sum>ind<m. c ind)"
  by (induction m) (simp_all add: assms)

lemma fold_accumulator:
  assumes "\<And>ind ll. g ind ll = ll + c ind"
  shows "fold g [0..<m] (a::real) = a + (\<Sum>ind<m. c ind)"
  by (induction m) (simp_all add: assms)

lemma spec_forward_cong:
  assumes "\<And>l. l \<le> n \<Longrightarrow> em l = em' l" and "\<And>l. l < n \<Longrightarrow> tr l = tr' l"
  shows "spec_forward em tr n = spec_forward em' tr' n"
  using assms
proof (induction n)
  case 0
  then show ?case by simp
next
  case (Suc n)
  then have IH: "spec_forward em tr n = spec_forward em' tr' n"
    and e: "em (Suc n) = em' (Suc n)" and t: "tr n = tr' n"
    by simp_all
  show ?case by (simp add: IH e t)
qed

lemma ll_fs_scaled_err_c_spec:
  "ll_fs_scaled_err_c Q T mx K0 st0 r ep ref alt bcoef Kab OPGP nInd nSnps nT =
     - (\<Sum>ind<nInd. snd (spec_forward
          (spec_emission Q OPGP (fst (emission_tables_fs bcoef ep ref alt nInd nSnps K0)) Kab
                                (snd (emission_tables_fs bcoef ep ref alt nInd nSnps K0)) nInd ind)
          (\<lambda>l s1 s2. T s1 s2 (r l)) (nSnps - 1)))"
  unfolding ll_fs_scaled_err_c_def Let_def
  by (subst fold_individuals_llval [where c = "\<lambda>ind. snd (spec_forward
          (spec_emission Q OPGP (fst (emission_tables_fs bcoef ep ref alt nInd nSnps K0)) Kab
                                (snd (emission_tables_fs bcoef ep ref alt nInd nSnps K0)) nInd ind)
          (\<lambda>l s1 s2. T s1 s2 (r l)) (nSnps - 1))"])
     (simp_all add: individual_fs_run forward_run_llval)

lemma ll_fs_ss_scaled_err_c_spec:
  "ll_fs_ss_scaled_err_c Q Tss st0 r Kaa Kab Kbb OPGP nInd nSnps =
     - (\<Sum>ind<nInd. snd (spec_forward (spec_emission Q OPGP Kaa Kab Kbb nInd ind)
          (\<lambda>l s1 s2. Tss s1 s2 (r l) (r (l + nSnps - 1))) (nSnps - 1)))"
  unfolding ll_fs_ss_scaled_err_c_def Let_def
  by (subst fold_individuals_llval [where c = "\<lambda>ind. snd (spec_forward (spec_emission Q OPGP Kaa Kab Kbb nInd ind)
          (\<lambda>l s1 s2. Tss s1 s2 (r l) (r (l + nSnps - 1))) (nSnps - 1))"])
     (simp_all add: individual_ss_run forward_run_llval)

lemma ll_fs_up_ss_scaled_err_c_spec:
  "ll_fs_up_ss_scaled_err_c Q Tss mx K0 sts r bcoef ep ref alt Kab config nInd nSnps nT =
     - (\<Sum>ind<nInd. snd (spec_forward
          (spec_emission Q config (fst (emission_tables_up bcoef ep ref alt nInd nSnps K0)) Kab
                                  (snd (emission_tables_up bcoef ep ref alt nInd nSnps K0)) nInd ind)
          (\<lambda>l s1 s2. Tss s1 s2 (r l) (r (l + nSnps - 1))) (nSnps - 1)))"
  unfolding ll_fs_up_ss_scaled_err_c_def Let_def
  by (subst fold_accumulator [where c = "\<lambda>ind. snd (spec_forward
          (spec_emission Q config (fst (emission_tables_up bcoef ep ref alt nInd nSnps K0)) Kab
                                  (snd (emission_tables_up bcoef ep ref alt nInd nSnps K0)) nInd ind)
          (\<lambda>l s1 s2. Tss s1 s2 (r l) (r (l + nSnps - 1))) (nSnps - 1))"])
     (simp_all add: individual_ss_run forward_run_llval)

lemma pow_c_nonneg: "0 \<le> n \<Longrightarrow> pow_c x n = x ^ nat n"
  by (simp add: pow_c_def)

subsection \<open>One individual alone\<close>

lemma cell_single: "cell (Suc 0) 0 l = l"
  by (simp add: cell_def)

lemma spec_emission_single_ss:
  "spec_emission Q OPGP (column nInd ind Kaa) (column nInd ind Kab) (column nInd ind Kbb) (Suc 0) 0
     = spec_emission Q OPGP Kaa Kab Kbb nInd ind"
  by (simp add: spec_emission_def fun_eq_iff cell_single column_def)

lemma spec_emission_err_single:
  "spec_emission_err Q OPGP (column nInd ind bcoef) ep (column nInd ind ref) (column nInd ind alt)
                     (column nInd ind Kab) (Suc 0) 0
     = spec_emission_err Q OPGP bcoef ep ref alt Kab nInd ind"
  by (simp add: spec_emission_err_def fun_eq_iff cell_single column_def Let_def)

lemma ll_fs_ss_scaled_err_c_additive:
  "ll_fs_ss_scaled_err_c Q Tss st0 r Kaa Kab Kbb OPGP nInd nSnps =
     - (\<Sum>ind<nInd. - ll_fs_ss_scaled_err_c Q Tss (st1 ind) r (column nInd ind Kaa)
                          (column nInd ind Kab) (column nInd ind Kbb) OPGP 1 nSnps)"
  unfolding ll_fs_ss_scaled_err_c_spec
  by (simp add: spec_emission_single_ss)

subsection \<open>Rescaling and the transition model\<close>

lemma forward_first_weight:
  "(\<Sum>s<4. alphaDot (forward_first q st) s) = (\<Sum>s<4. 0.25 * q s)"
  by (rule sum.cong) (simp_all add: forward_first_alphaDot)

lemma forward_next_weight:
  "(\<Sum>s<4. alphaDot (forward_next t q st) s) = (\<Sum>s2<4. q s2 * (\<Sum>s1<4. t s1 s2 * alphaTilde st s1))"
  by (rule sum.cong) (simp_all add: forward_next_alphaDot)

lemma forward_first_normalised:
  assumes "(\<Sum>s<4. alphaDot (forward_first q st) s) \<noteq> 0"
  shows "(\<Sum>s<4. alphaTilde (forward_first q st) s) = 1"
proof -
  let ?W = "\<Sum>s<4. 0.25 * q s"
  from assms have W: "?W \<noteq> 0" unfolding forward_first_weight .
  have "(\<Sum>s<4. alphaTilde (forward_first q st) s) = (\<Sum>s<4. 0.25 * q s / ?W)"
    by (rule sum.cong) (simp_all add: forward_first_alphaTilde)
  also have "\<dots> = ?W / ?W" by (simp only: sum_divide_distrib)
  also from W have "\<dots> = 1" by simp
  finally show ?thesis .
qed

lemma forward_next_normalised:
  assumes "(\<Sum>s<4. alphaDot (forward_next t q st) s) \<noteq> 0"
  shows "(\<Sum>s<4. alphaTilde (forward_next t q st) s) = 1"
proof -
  let ?W = "\<Sum>s2<4. q s2 * (\<Sum>s1<4. t s1 s2 * alphaTilde st s1)"
  from assms have W: "?W \<noteq> 0" unfolding forward_next_weight .
  have "(\<Sum>s<4. alphaTilde (forward_next t q st) s)
          = (\<Sum>s<4. q s * (\<Sum>s1<4. t s1 s * alphaTilde st s1) / ?W)"
    by (rule sum.cong) (simp_all add: forward_next_alphaTilde)
  also have "\<dots> = ?W / ?W" by (simp only: sum_divide_distrib)
  also from W have "\<dots> = 1" by simp
  finally show ?thesis .
qed

lemma forward_run_Suc_cases:
  "forward_run em tr (Suc k) st =
     (if k = 0 then forward_first (em 0) st
      else forward_next (tr (k - 1)) (em k) (forward_run em tr k st))"
  by (simp add: forward_run_first forward_run_next)

lemma forward_run_normalised:
  assumes "(\<Sum>s<4. alphaDot (forward_run em tr (Suc k) st) s) \<noteq> 0"
  shows "(\<Sum>s<4. alphaTilde (forward_run em tr (Suc k) st) s) = 1"
  using assms unfolding forward_run_Suc_cases
  by (simp add: forward_first_normalised forward_next_normalised split: if_splits)

lemma Tmat_ss_row:
  assumes "s1 < 4"
  shows "(\<Sum>s2<4. Tmat_ss s1 s2 rp rm) = 1"
  using lt4_cases [OF assms]
  by (auto simp add: sum_lessThan_4 Tmat_ss_def origin_switch_def pat_origin_def mat_origin_def
        algebra_simps)

lemma Tmat_is_Tmat_ss: "Tmat s1 s2 r = Tmat_ss s1 s2 r r"
  by (simp add: Tmat_def Tmat_ss_def)

subsection \<open>The likelihood functions in closed form\<close>

lemma spec_emission_tables_fs:
  assumes "ind < nInd" and "l < nSnps"
  shows "spec_emission Q OPGP (fst (emission_tables_fs bcoef ep ref alt nInd nSnps K0)) Kab
                       (snd (emission_tables_fs bcoef ep ref alt nInd nSnps K0)) nInd ind l
       = spec_emission_err Q OPGP bcoef ep ref alt Kab nInd ind l"
proof -
  from assms have pos: "0 < nInd" by simp
  show ?thesis
    using assms pos
    by (simp add: spec_emission_def spec_emission_err_def fun_eq_iff Let_def
          emission_tables_fs_cells cell_div)
qed

lemma spec_emission_tables_up:
  assumes "ind < nInd" and "l < nSnps"
  shows "spec_emission Q config (fst (emission_tables_up bcoef ep_c ref alt nInd nSnps K0)) Kab
                       (snd (emission_tables_up bcoef ep_c ref alt nInd nSnps K0)) nInd ind l
       = spec_emission_err Q config bcoef (\<lambda>_. ep_c) ref alt Kab nInd ind l"
  using assms
  by (simp add: spec_emission_def spec_emission_err_def fun_eq_iff Let_def
        emission_tables_up_cells cell_less)

lemma ll_fs_scaled_err_c_closed:
  assumes "1 \<le> nSnps"
  shows "ll_fs_scaled_err_c Q T mx K0 st0 r ep ref alt bcoef Kab OPGP nInd nSnps nT =
     - (\<Sum>ind<nInd. snd (spec_forward (spec_emission_err Q OPGP bcoef ep ref alt Kab nInd ind)
                                       (\<lambda>l s1 s2. T s1 s2 (r l)) (nSnps - 1)))"
proof -
  have "spec_forward
          (spec_emission Q OPGP (fst (emission_tables_fs bcoef ep ref alt nInd nSnps K0)) Kab
                                (snd (emission_tables_fs bcoef ep ref alt nInd nSnps K0)) nInd ind)
          (\<lambda>l s1 s2. T s1 s2 (r l)) (nSnps - 1)
      = spec_forward (spec_emission_err Q OPGP bcoef ep ref alt Kab nInd ind)
          (\<lambda>l s1 s2. T s1 s2 (r l)) (nSnps - 1)" if "ind < nInd" for ind
  proof (rule spec_forward_cong)
    fix l assume "l \<le> nSnps - 1"
    with assms have "l < nSnps" by simp
    with that show "spec_emission Q OPGP (fst (emission_tables_fs bcoef ep ref alt nInd nSnps K0)) Kab
                                (snd (emission_tables_fs bcoef ep ref alt nInd nSnps K0)) nInd ind l
       = spec_emission_err Q OPGP bcoef ep ref alt Kab nInd ind l"
      by (rule spec_emission_tables_fs)
  qed simp
  then show ?thesis
    unfolding ll_fs_scaled_err_c_spec by simp
qed

lemma ll_fs_up_ss_scaled_err_c_closed:
  assumes "1 \<le> nSnps"
  shows "ll_fs_up_ss_scaled_err_c Q Tss mx K0 sts r bcoef ep_c ref alt Kab config nInd nSnps nT =
     - (\<Sum>ind<nInd. snd (spec_forward (spec_emission_err Q config bcoef (\<lambda>_. ep_c) ref alt Kab nInd ind)
                                       (\<lambda>l s1 s2. Tss s1 s2 (r l) (r (l + nSnps - 1))) (nSnps - 1)))"
proof -
  have "spec_forward
          (spec_emission Q config (fst (emission_tables_up bcoef ep_c ref alt nInd nSnps K0)) Kab
                                  (snd (emission_tables_up bcoef ep_c ref alt nInd nSnps K0)) nInd ind)
          (\<lambda>l s1 s2. Tss s1 s2 (r l) (r (l + nSnps - 1))) (nSnps - 1)
      = spec_forward (spec_emission_err Q config bcoef (\<lambda>_. ep_c) ref alt Kab nInd ind)
          (\<lambda>l s1 s2. Tss s1 s2 (r l) (r (l + nSnps - 1))) (nSnps - 1)" if "ind < nInd" for ind
  proof (rule spec_forward_cong)
    fix l assume "l \<le> nSnps - 1"
    with assms have "l < nSnps" by simp
    with that show "spec_emission Q config (fst (emission_tables_up bcoef ep_c ref alt nInd nSnps K0)) Kab
                                  (snd (emission_tables_up bcoef ep_c ref alt nInd nSnps K0)) nInd ind l
       = spec_emission_err Q config bcoef (\<lambda>_. ep_c) ref alt Kab nInd ind l"
      by (rule spec_emission_tables_up)
  qed simp
  then show ?thesis
    unfolding ll_fs_up_ss_scaled_err_c_spec by simp
qed

lemma ll_fs_scaled_err_c_additive:
  assumes "1 \<le> nSnps"
  shows "ll_fs_scaled_err_c Q T mx K0 st0 r ep ref alt bcoef Kab OPGP nInd nSnps nT =
     - (\<Sum>ind<nInd. - ll_fs_scaled_err_c Q T mx (K1 ind) (st1 ind) r ep (column nInd ind ref)
                          (column nInd ind alt) (column nInd ind bcoef) (column nInd ind Kab)
                          OPGP 1 nSnps nT)"
  unfolding ll_fs_scaled_err_c_closed [OF assms]
  by (simp add: spec_emission_err_single)

lemma ll_fs_up_ss_scaled_err_c_additive:
  assumes "1 \<le> nSnps"
  shows "ll_fs_up_ss_scaled_err_c Q Tss mx K0 sts r bcoef ep_c ref alt Kab config nInd nSnps nT =
     - (\<Sum>ind<nInd. - ll_fs_up_ss_scaled_err_c Q Tss mx (K1 ind) (sts1 ind) r (column nInd ind bcoef)
                          ep_c (column nInd ind ref) (column nInd ind alt) (column nInd ind Kab)
                          config 1 nSnps nT)"
  unfolding ll_fs_up_ss_scaled_err_c_closed [OF assms]
  by (simp add: spec_emission_err_single)

lemma sex_specific_transitions:
  assumes "length r_pat = nSnps - 1"
  shows "spec_forward em (\<lambda>l s1 s2. Tss s1 s2 ((r_pat @ r_mat) ! l) ((r_pat @ r_mat) ! (l + nSnps - 1)))
                      (nSnps - 1)
       = spec_forward em (\<lambda>l s1 s2. Tss s1 s2 (r_pat ! l) (r_mat ! l)) (nSnps - 1)"
proof (rule spec_forward_cong)
  fix l assume l: "l < nSnps - 1"
  then have "l + nSnps - 1 = length r_pat + l" using assms by simp
  then have "(r_pat @ r_mat) ! (l + nSnps - 1) = r_mat ! l"
    by (simp only: nth_append_length_plus)
  moreover from l assms have "(r_pat @ r_mat) ! l = r_pat ! l"
    by (simp add: nth_append)
  ultimately show "(\<lambda>s1 s2. Tss s1 s2 ((r_pat @ r_mat) ! l) ((r_pat @ r_mat) ! (l + nSnps - 1)))
      = (\<lambda>s1 s2. Tss s1 s2 (r_pat ! l) (r_mat ! l))"
    by simp
qed simp

section \<open>The claims\<close>

text \<open>
  C7: whatever thread count is requested, the effective count is normalised without
  an error: a request of 0 or less becomes the hardware maximum, a request above the
  maximum is capped to it, and the effective count lies between 1 and the hardware
  maximum (which is at least 1, as \<open>omp_get_max_threads\<close> and its fallback are).
\<close>

theorem set_up_threads_range:
  assumes "1 \<le> maxThreads"
  shows "(n \<le> 0 \<longrightarrow> set_up_threads maxThreads n = maxThreads)
       \<and> (maxThreads < n \<longrightarrow> set_up_threads maxThreads n = maxThreads)
       \<and> (0 < n \<and> n \<le> maxThreads \<longrightarrow> set_up_threads maxThreads n = n)
       \<and> 1 \<le> set_up_threads maxThreads n
       \<and> set_up_threads maxThreads n \<le> maxThreads"
  using assms by (simp add: set_up_threads_def)

theorem set_up_threads_range_witness:
  "(1::int) \<le> 8
   \<and> set_up_threads 8 0 = 8 \<and> set_up_threads 8 (-3) = 8
   \<and> set_up_threads 8 10000 = 8 \<and> set_up_threads 8 5 = 5
   \<and> set_up_threads omp_get_max_threads_fallback 10000 = 1"
proof -
  have h: "(1::int) \<le> 8" by simp
  have h1: "(1::int) \<le> omp_get_max_threads_fallback"
    by (simp add: omp_get_max_threads_fallback_def)
  show ?thesis
    using set_up_threads_range [OF h, of 0] set_up_threads_range [OF h, of "-3"]
      set_up_threads_range [OF h, of 10000] set_up_threads_range [OF h, of 5]
      set_up_threads_range [OF h1, of 10000]
    by (simp add: omp_get_max_threads_fallback_def)
qed

text \<open>
  C1: for every individual, the loop body of each likelihood function computes the
  contribution by the scaled forward recursion of the specification: the accumulator
  grows by the accumulator of \<open>spec_forward\<close> (the logarithm of the first sum plus
  the logarithms of the later step weights), and the four cells of \<open>alphaTilde\<close> are
  the rescaled forward vector after the last marker. \<open>individual_fs\<close> is the body of
  the phased function with one recombination fraction, \<open>individual_ss\<close> the body of
  the two sex-specific functions. A marker count of 0 runs the first step all the same.
\<close>

theorem individual_forward_recursion:
  "llval (individual_fs Q T pr pOPGP pKaa pKab pKbb nInd nSnps ind st)
     = llval st + snd (spec_forward (spec_emission Q pOPGP pKaa pKab pKbb nInd ind)
                                    (\<lambda>l s1 s2. T s1 s2 (pr l)) (nSnps - 1))
   \<and> map (alphaTilde (individual_fs Q T pr pOPGP pKaa pKab pKbb nInd nSnps ind st)) [0..<4]
     = map (fst (spec_forward (spec_emission Q pOPGP pKaa pKab pKbb nInd ind)
                              (\<lambda>l s1 s2. T s1 s2 (pr l)) (nSnps - 1))) [0..<4]
   \<and> llval (individual_ss Q Tss pr pOPGP pKaa pKab pKbb nInd nSnps ind st)
     = llval st + snd (spec_forward (spec_emission Q pOPGP pKaa pKab pKbb nInd ind)
                                    (\<lambda>l s1 s2. Tss s1 s2 (pr l) (pr (l + nSnps - 1))) (nSnps - 1))
   \<and> map (alphaTilde (individual_ss Q Tss pr pOPGP pKaa pKab pKbb nInd nSnps ind st)) [0..<4]
     = map (fst (spec_forward (spec_emission Q pOPGP pKaa pKab pKbb nInd ind)
                              (\<lambda>l s1 s2. Tss s1 s2 (pr l) (pr (l + nSnps - 1))) (nSnps - 1))) [0..<4]"
  by (simp add: individual_fs_run individual_ss_run forward_run_llval forward_run_alphaTilde
        del: upt_Suc)

text \<open>
  C2: for every cell of an individual \<open>ind < nInd\<close> and a marker \<open>snp < nSnps\<close>
  with non-negative reference and alternate counts, the tables built by the function
  with per-marker error rates and by the function with one scalar error rate hold
  \<open>Kaa = bcoef * (1 - ep)^ref * ep^alt\<close> and \<open>Kbb = bcoef * (1 - ep)^alt * ep^ref\<close>,
  whatever the tables held before; with \<open>0^0 = 1\<close>, zero counts give \<open>bcoef\<close>.
\<close>

theorem emission_densities:
  assumes "ind < nInd" and "snp < nSnps"
    and "0 \<le> pref (cell nInd ind snp)" and "0 \<le> palt (cell nInd ind snp)"
  shows "fst (emission_tables_fs pbcoef pep pref palt nInd nSnps K0) (cell nInd ind snp)
           = pbcoef (cell nInd ind snp) * (1 - pep snp) ^ nat (pref (cell nInd ind snp))
                                        * pep snp ^ nat (palt (cell nInd ind snp))
       \<and> snd (emission_tables_fs pbcoef pep pref palt nInd nSnps K0) (cell nInd ind snp)
           = pbcoef (cell nInd ind snp) * (1 - pep snp) ^ nat (palt (cell nInd ind snp))
                                        * pep snp ^ nat (pref (cell nInd ind snp))
       \<and> fst (emission_tables_up pbcoef ep_c pref palt nInd nSnps K0) (cell nInd ind snp)
           = pbcoef (cell nInd ind snp) * (1 - ep_c) ^ nat (pref (cell nInd ind snp))
                                        * ep_c ^ nat (palt (cell nInd ind snp))
       \<and> snd (emission_tables_up pbcoef ep_c pref palt nInd nSnps K0) (cell nInd ind snp)
           = pbcoef (cell nInd ind snp) * (1 - ep_c) ^ nat (palt (cell nInd ind snp))
                                        * ep_c ^ nat (pref (cell nInd ind snp))"
proof -
  from assms(1) have pos: "0 < nInd" by simp
  show ?thesis
    using assms pos
    by (simp add: emission_tables_fs_cells emission_tables_up_cells cell_div cell_less
          Kaa_density_def Kbb_density_def pow_c_nonneg)
qed

theorem emission_densities_witness:
  "(1::nat) < 2 \<and> (0::int) \<le> 2 \<and> (0::int) \<le> 1
   \<and> cell 2 1 1 = 3
   \<and> fst (emission_tables_fs (\<lambda>_. 3) (\<lambda>_. 1/2) (\<lambda>_. 2) (\<lambda>_. 1) 2 2 (\<lambda>_. 0, \<lambda>_. 0)) 3 = 3/8
   \<and> snd (emission_tables_fs (\<lambda>_. 3) (\<lambda>_. 1/2) (\<lambda>_. 2) (\<lambda>_. 1) 2 2 (\<lambda>_. 0, \<lambda>_. 0)) 3 = 3/8
   \<and> fst (emission_tables_up (\<lambda>_. 3) (1/3) (\<lambda>_. 2) (\<lambda>_. 0) 2 2 (\<lambda>_. 0, \<lambda>_. 0)) 3 = 4/3
   \<and> snd (emission_tables_up (\<lambda>_. 3) (1/3) (\<lambda>_. 2) (\<lambda>_. 0) 2 2 (\<lambda>_. 0, \<lambda>_. 0)) 3 = 1/3
   \<and> fst (emission_tables_up (\<lambda>_. 3) 0 (\<lambda>_. 0) (\<lambda>_. 0) 2 2 (\<lambda>_. 0, \<lambda>_. 0)) 3 = 3"
proof -
  have c: "cell 2 1 1 = 3" by (simp add: cell_def)
  have h: "(1::nat) < 2" by simp
  have h2: "(0::int) \<le> 2" and h1: "(0::int) \<le> 1" and h0: "(0::int) \<le> 0" by simp_all
  note a = emission_densities [of 1 2 1 2 "\<lambda>_. 2" "\<lambda>_. 1" "\<lambda>_. 3" "\<lambda>_. 1/2" "(\<lambda>_. 0, \<lambda>_. 0)" "1/3",
      OF h h h2 h1, unfolded c]
  note b = emission_densities [of 1 2 1 2 "\<lambda>_. 2" "\<lambda>_. 0" "\<lambda>_. 3" "\<lambda>_. 1/2" "(\<lambda>_. 0, \<lambda>_. 0)" "1/3",
      OF h h h2 h0, unfolded c]
  note d = emission_densities [of 1 2 1 2 "\<lambda>_. 0" "\<lambda>_. 0" "\<lambda>_. 3" "\<lambda>_. 1/2" "(\<lambda>_. 0, \<lambda>_. 0)" 0,
      OF h h h0 h0, unfolded c]
  show ?thesis
    using a b d by (simp add: cell_def power2_eq_square)
qed

text \<open>
  C3: the scalar returned by each of the three functions is the negation of the plain
  sum, over the individuals, of their contributions. The contribution of an individual
  is what the loop body adds to a zero accumulator; it depends neither on the
  individuals processed before nor on what the uninitialised locals hold (\<open>st\<close> is
  arbitrary). It is also the negated result of the same function called on the data of
  that individual alone (a family of one individual, same shared parameters, any stack
  content): for the sex-specific phased function always, for the two functions that
  build the tables on the stack when there is at least one marker (with none, the
  first step reads table cells that were never written).
\<close>

theorem likelihood_is_negated_sum:
  "ll_fs_scaled_err_c Q T mx K0 st0 r ep ref alt bcoef Kab OPGP nInd nSnps nT =
     - (\<Sum>ind<nInd. llval (individual_fs Q T r OPGP
           (fst (emission_tables_fs bcoef ep ref alt nInd nSnps K0)) Kab
           (snd (emission_tables_fs bcoef ep ref alt nInd nSnps K0))
           nInd nSnps ind (st\<lparr>llval := 0\<rparr>)))
   \<and> ll_fs_ss_scaled_err_c Q Tss st0 r Kaa Kab Kbb OPGP nInd nSnps =
     - (\<Sum>ind<nInd. llval (individual_ss Q Tss r OPGP Kaa Kab Kbb nInd nSnps ind
                               (st\<lparr>llval := 0\<rparr>)))
   \<and> ll_fs_up_ss_scaled_err_c Q Tss mx K0 sts r bcoef ep_c ref alt Kab OPGP nInd nSnps nT =
     - (\<Sum>ind<nInd. llval (individual_ss Q Tss r OPGP
           (fst (emission_tables_up bcoef ep_c ref alt nInd nSnps K0)) Kab
           (snd (emission_tables_up bcoef ep_c ref alt nInd nSnps K0))
           nInd nSnps ind (st\<lparr>llval := 0\<rparr>)))
   \<and> (1 \<le> nSnps \<longrightarrow>
        ll_fs_scaled_err_c Q T mx K0 st0 r ep ref alt bcoef Kab OPGP nInd nSnps nT =
          - (\<Sum>ind<nInd. - ll_fs_scaled_err_c Q T mx (K1 ind) (st1 ind) r ep
                               (column nInd ind ref) (column nInd ind alt)
                               (column nInd ind bcoef) (column nInd ind Kab) OPGP 1 nSnps nT))
   \<and> ll_fs_ss_scaled_err_c Q Tss st0 r Kaa Kab Kbb OPGP nInd nSnps =
     - (\<Sum>ind<nInd. - ll_fs_ss_scaled_err_c Q Tss (st1 ind) r (column nInd ind Kaa)
                          (column nInd ind Kab) (column nInd ind Kbb) OPGP 1 nSnps)
   \<and> (1 \<le> nSnps \<longrightarrow>
        ll_fs_up_ss_scaled_err_c Q Tss mx K0 sts r bcoef ep_c ref alt Kab OPGP nInd nSnps nT =
          - (\<Sum>ind<nInd. - ll_fs_up_ss_scaled_err_c Q Tss mx (K1 ind) (sts1 ind) r
                               (column nInd ind bcoef) ep_c (column nInd ind ref)
                               (column nInd ind alt) (column nInd ind Kab) OPGP 1 nSnps nT))"
proof (intro conjI impI)
  show "ll_fs_scaled_err_c Q T mx K0 st0 r ep ref alt bcoef Kab OPGP nInd nSnps nT =
     - (\<Sum>ind<nInd. llval (individual_fs Q T r OPGP
           (fst (emission_tables_fs bcoef ep ref alt nInd nSnps K0)) Kab
           (snd (emission_tables_fs bcoef ep ref alt nInd nSnps K0))
           nInd nSnps ind (st\<lparr>llval := 0\<rparr>)))"
    by (simp add: ll_fs_scaled_err_c_spec individual_fs_run forward_run_llval)
  show "ll_fs_ss_scaled_err_c Q Tss st0 r Kaa Kab Kbb OPGP nInd nSnps =
     - (\<Sum>ind<nInd. llval (individual_ss Q Tss r OPGP Kaa Kab Kbb nInd nSnps ind
                               (st\<lparr>llval := 0\<rparr>)))"
    by (simp add: ll_fs_ss_scaled_err_c_spec individual_ss_run forward_run_llval)
  show "ll_fs_up_ss_scaled_err_c Q Tss mx K0 sts r bcoef ep_c ref alt Kab OPGP nInd nSnps nT =
     - (\<Sum>ind<nInd. llval (individual_ss Q Tss r OPGP
           (fst (emission_tables_up bcoef ep_c ref alt nInd nSnps K0)) Kab
           (snd (emission_tables_up bcoef ep_c ref alt nInd nSnps K0))
           nInd nSnps ind (st\<lparr>llval := 0\<rparr>)))"
    by (simp add: ll_fs_up_ss_scaled_err_c_spec individual_ss_run forward_run_llval)
qed (rule ll_fs_scaled_err_c_additive ll_fs_ss_scaled_err_c_additive
          ll_fs_up_ss_scaled_err_c_additive, assumption?)+

theorem likelihood_is_negated_sum_witness:
  "(1::nat) \<le> 2
   \<and> ll_fs_scaled_err_c (\<lambda>code Kaa Kab Kbb elem. if code = 1 then Kaa else 1) (\<lambda>_ _ _. 1/4) 1
        (\<lambda>_. 7, \<lambda>_. 9) \<lparr>alphaTilde = \<lambda>_. 5, alphaDot = \<lambda>_. 6, sum_v = 3, w_new = 4, llval = 8\<rparr>
        (\<lambda>_. 0) (\<lambda>snp. if snp = 1 then 1/2 else 1/3) (\<lambda>j. int j) (\<lambda>_. 0)
        (\<lambda>j. real j * 2 ^ j) (\<lambda>_. 0) (\<lambda>snp. int snp) 2 2 0
     = - (\<Sum>ind<2. - ll_fs_scaled_err_c (\<lambda>code Kaa Kab Kbb elem. if code = 1 then Kaa else 1)
            (\<lambda>_ _ _. 1/4) 1 (\<lambda>_. 1, \<lambda>_. 2) \<lparr>alphaTilde = \<lambda>_. 0, alphaDot = \<lambda>_. 0, sum_v = 0, w_new = 0, llval = 0\<rparr>
            (\<lambda>_. 0) (\<lambda>snp. if snp = 1 then 1/2 else 1/3) (column 2 ind (\<lambda>j. int j))
            (column 2 ind (\<lambda>_. 0)) (column 2 ind (\<lambda>j. real j * 2 ^ j)) (column 2 ind (\<lambda>_. 0))
            (\<lambda>snp. int snp) 1 2 0)
   \<and> ll_fs_up_ss_scaled_err_c (\<lambda>code Kaa Kab Kbb elem. if code = 1 then Kaa else 1)
        (\<lambda>_ _ _ _. 1/4) 1 (\<lambda>_. 7, \<lambda>_. 9) (\<lambda>_. \<lparr>alphaTilde = \<lambda>_. 5, alphaDot = \<lambda>_. 6, sum_v = 3, w_new = 4, llval = 8\<rparr>)
        (\<lambda>_. 0) (\<lambda>j. real j * 2 ^ j) (1/2) (\<lambda>j. int j) (\<lambda>_. 0) (\<lambda>_. 0) (\<lambda>snp. int snp) 2 2 0
     = - (\<Sum>ind<2. - ll_fs_up_ss_scaled_err_c (\<lambda>code Kaa Kab Kbb elem. if code = 1 then Kaa else 1)
            (\<lambda>_ _ _ _. 1/4) 1 (\<lambda>_. 1, \<lambda>_. 2) (\<lambda>_. \<lparr>alphaTilde = \<lambda>_. 0, alphaDot = \<lambda>_. 0, sum_v = 0, w_new = 0, llval = 0\<rparr>)
            (\<lambda>_. 0) (column 2 ind (\<lambda>j. real j * 2 ^ j)) (1/2) (column 2 ind (\<lambda>j. int j))
            (column 2 ind (\<lambda>_. 0)) (column 2 ind (\<lambda>_. 0)) (\<lambda>snp. int snp) 1 2 0)
   \<and> ll_fs_scaled_err_c (\<lambda>code Kaa Kab Kbb elem. if code = 1 then Kaa else 1) (\<lambda>_ _ _. 1/4) 1
        (\<lambda>_. 1, \<lambda>_. 2) \<lparr>alphaTilde = \<lambda>_. 0, alphaDot = \<lambda>_. 0, sum_v = 0, w_new = 0, llval = 0\<rparr>
        (\<lambda>_. 0) (\<lambda>snp. if snp = 1 then 1/2 else 1/3) (column 2 1 (\<lambda>j. int j))
        (column 2 1 (\<lambda>_. 0)) (column 2 1 (\<lambda>j. real j * 2 ^ j)) (column 2 1 (\<lambda>_. 0))
        (\<lambda>snp. int snp) 1 2 0 = - ln 3"
proof -
  have h: "(1::nat) \<le> 2" by simp
  note t = likelihood_is_negated_sum [
      where Q = "\<lambda>code Kaa Kab Kbb elem. if code = 1 then Kaa else 1"
      and T = "\<lambda>_ _ _. 1/4" and Tss = "\<lambda>_ _ _ _. 1/4" and mx = 1
      and ?K0.0 = "(\<lambda>_. 7, \<lambda>_. 9)" and ?st0.0 = "\<lparr>alphaTilde = \<lambda>_. 5, alphaDot = \<lambda>_. 6, sum_v = 3, w_new = 4, llval = 8\<rparr>"
      and sts = "\<lambda>_. \<lparr>alphaTilde = \<lambda>_. 5, alphaDot = \<lambda>_. 6, sum_v = 3, w_new = 4, llval = 8\<rparr>" and ?K1.0 = "\<lambda>_. (\<lambda>_. 1, \<lambda>_. 2)"
      and ?st1.0 = "\<lambda>_. \<lparr>alphaTilde = \<lambda>_. 0, alphaDot = \<lambda>_. 0, sum_v = 0, w_new = 0, llval = 0\<rparr>" and ?sts1.0 = "\<lambda>_ _. \<lparr>alphaTilde = \<lambda>_. 0, alphaDot = \<lambda>_. 0, sum_v = 0, w_new = 0, llval = 0\<rparr>"
      and r = "\<lambda>_. 0" and ep = "\<lambda>snp. if snp = 1 then 1/2 else 1/3" and ep_c = "1/2"
      and ref = "\<lambda>j. int j" and alt = "\<lambda>_. 0" and bcoef = "\<lambda>j. real j * 2 ^ j"
      and Kab = "\<lambda>_. 0" and OPGP = "\<lambda>snp. int snp" and nInd = 2 and nSnps = 2 and nT = 0]
  note fs = t [THEN conjunct2, THEN conjunct2, THEN conjunct2, THEN conjunct1, THEN mp, OF h]
  note up = t [THEN conjunct2, THEN conjunct2, THEN conjunct2, THEN conjunct2, THEN conjunct2,
      THEN mp, OF h]
  have n: "(2::nat) - 1 = Suc 0" by simp
  have one: "ll_fs_scaled_err_c (\<lambda>code Kaa Kab Kbb elem. if code = 1 then Kaa else 1) (\<lambda>_ _ _. 1/4) 1
        (\<lambda>_. 1, \<lambda>_. 2) \<lparr>alphaTilde = \<lambda>_. 0, alphaDot = \<lambda>_. 0, sum_v = 0, w_new = 0, llval = 0\<rparr>
        (\<lambda>_. 0) (\<lambda>snp. if snp = 1 then 1/2 else 1/3) (column 2 1 (\<lambda>j. int j))
        (column 2 1 (\<lambda>_. 0)) (column 2 1 (\<lambda>j. real j * 2 ^ j)) (column 2 1 (\<lambda>_. 0))
        (\<lambda>snp. int snp) 1 2 0 = - ln 3"
    unfolding ll_fs_scaled_err_c_closed [OF h] n
    by (simp add: spec_emission_err_def Kaa_density_def pow_c_def sum_lessThan_4 cell_def
          column_def Let_def power_divide)
  from h fs up one show ?thesis by (intro conjI)
qed

text \<open>
  C4: for every source state \<open>s1\<close> among the four hidden states, the four transition
  probabilities over the destination states sum to 1, for \<open>Tmat\<close> and for \<open>Tmat_ss\<close>.
  The equality holds for all real recombination fractions, in particular for those in
  the interval from 0 to 1.
\<close>

theorem transition_rows_sum_to_one:
  assumes "s1 < 4"
  shows "(\<Sum>s2<4. Tmat s1 s2 r) = 1 \<and> (\<Sum>s2<4. Tmat_ss s1 s2 r_pat r_mat) = 1"
  using assms by (simp add: Tmat_is_Tmat_ss Tmat_ss_row)

theorem transition_rows_sum_to_one_witness:
  "(2::nat) < 4 \<and> (\<Sum>s2<4. Tmat 2 s2 (1/10)) = 1 \<and> (\<Sum>s2<4. Tmat_ss 2 s2 (1/10) (3/10)) = 1
   \<and> Tmat 2 3 (1/10) = 9/100 \<and> Tmat_ss 2 1 (1/10) (3/10) = 3/100"
proof -
  have h: "(2::nat) < 4" by simp
  have v: "Tmat 2 3 (1/10) = 9/100 \<and> Tmat_ss 2 1 (1/10) (3/10) = 3/100"
    by (simp add: Tmat_def Tmat_ss_def origin_switch_def pat_origin_def mat_origin_def)
  from h transition_rows_sum_to_one [OF h, of "1/10" "1/10" "3/10"] v show ?thesis
    by blast
qed

text \<open>
  C5: at the first marker and at every later marker step, if the step weight (the sum
  of the four \<open>alphaDot\<close> values, which is the C variable \<open>sum\<close>, respectively
  \<open>w_new\<close>) is positive, then \<open>alphaTilde\<close> sums to 1 after the rescaling division.
  The two step functions are those of all three likelihood functions; the last two
  conjuncts state the property for the state in which an individual's run ends.
\<close>

theorem rescaled_vector_sums_to_one:
  "(0 < (\<Sum>s<4. alphaDot (forward_first q st) s) \<longrightarrow> (\<Sum>s<4. alphaTilde (forward_first q st) s) = 1)
   \<and> (0 < (\<Sum>s<4. alphaDot (forward_next t q st) s) \<longrightarrow> (\<Sum>s<4. alphaTilde (forward_next t q st) s) = 1)
   \<and> sum_v (forward_first q st) = (\<Sum>s<4. alphaDot (forward_first q st) s)
   \<and> w_new (forward_next t q st) = (\<Sum>s<4. alphaDot (forward_next t q st) s)
   \<and> (0 < (\<Sum>s<4. alphaDot (individual_fs Q T pr pOPGP pKaa pKab pKbb nInd nSnps ind st) s)
        \<longrightarrow> (\<Sum>s<4. alphaTilde (individual_fs Q T pr pOPGP pKaa pKab pKbb nInd nSnps ind st) s) = 1)
   \<and> (0 < (\<Sum>s<4. alphaDot (individual_ss Q Tss pr pOPGP pKaa pKab pKbb nInd nSnps ind st) s)
        \<longrightarrow> (\<Sum>s<4. alphaTilde (individual_ss Q Tss pr pOPGP pKaa pKab pKbb nInd nSnps ind st) s) = 1)"
proof -
  have run: "0 < (\<Sum>s<4. alphaDot (forward_run em tr n st) s)
             \<longrightarrow> (\<Sum>s<4. alphaTilde (forward_run em tr n st) s) = 1" for em tr n
    using forward_run_normalised [of em tr "n - 1" st] forward_run_nSnps [of em tr n st]
    by simp
  show ?thesis
    by (simp add: forward_first_normalised forward_next_normalised forward_first_weight
          forward_next_weight forward_first_sum_v forward_next_w_new
          individual_fs_run individual_ss_run run)
qed

theorem rescaled_vector_sums_to_one_witness:
  "0 < (\<Sum>s<4. alphaDot (forward_first (\<lambda>_. 1) \<lparr>alphaTilde = \<lambda>_. 0, alphaDot = \<lambda>_. 0, sum_v = 0, w_new = 0, llval = 0\<rparr>) s)
   \<and> (\<Sum>s<4. alphaTilde (forward_first (\<lambda>_. 1) \<lparr>alphaTilde = \<lambda>_. 0, alphaDot = \<lambda>_. 0, sum_v = 0, w_new = 0, llval = 0\<rparr>) s) = 1
   \<and> 0 < (\<Sum>s<4. alphaDot (forward_next (\<lambda>_ _. 1/4) (\<lambda>_. 1) (forward_first (\<lambda>_. 1) \<lparr>alphaTilde = \<lambda>_. 0, alphaDot = \<lambda>_. 0, sum_v = 0, w_new = 0, llval = 0\<rparr>)) s)
   \<and> (\<Sum>s<4. alphaTilde (forward_next (\<lambda>_ _. 1/4) (\<lambda>_. 1) (forward_first (\<lambda>_. 1) \<lparr>alphaTilde = \<lambda>_. 0, alphaDot = \<lambda>_. 0, sum_v = 0, w_new = 0, llval = 0\<rparr>)) s) = 1
   \<and> 0 < (\<Sum>s<4. alphaDot (individual_fs (\<lambda>_ _ _ _ _. 1) (\<lambda>_ _ _. 0) (\<lambda>_. 0) (\<lambda>_. 0)
                               (\<lambda>_. 0) (\<lambda>_. 0) (\<lambda>_. 0) 1 1 0
        \<lparr>alphaTilde = \<lambda>_. 0, alphaDot = \<lambda>_. 0, sum_v = 0, w_new = 0, llval = 0\<rparr>) s)
   \<and> (\<Sum>s<4. alphaTilde (individual_fs (\<lambda>_ _ _ _ _. 1) (\<lambda>_ _ _. 0) (\<lambda>_. 0) (\<lambda>_. 0)
                               (\<lambda>_. 0) (\<lambda>_. 0) (\<lambda>_. 0) 1 1 0
        \<lparr>alphaTilde = \<lambda>_. 0, alphaDot = \<lambda>_. 0, sum_v = 0, w_new = 0, llval = 0\<rparr>) s) = 1
   \<and> 0 < (\<Sum>s<4. alphaDot (individual_ss (\<lambda>_ _ _ _ _. 1) (\<lambda>_ _ _ _. 0) (\<lambda>_. 0) (\<lambda>_. 0)
                               (\<lambda>_. 0) (\<lambda>_. 0) (\<lambda>_. 0) 1 1 0
        \<lparr>alphaTilde = \<lambda>_. 0, alphaDot = \<lambda>_. 0, sum_v = 0, w_new = 0, llval = 0\<rparr>) s)
   \<and> (\<Sum>s<4. alphaTilde (individual_ss (\<lambda>_ _ _ _ _. 1) (\<lambda>_ _ _ _. 0) (\<lambda>_. 0) (\<lambda>_. 0)
                               (\<lambda>_. 0) (\<lambda>_. 0) (\<lambda>_. 0) 1 1 0
        \<lparr>alphaTilde = \<lambda>_. 0, alphaDot = \<lambda>_. 0, sum_v = 0, w_new = 0, llval = 0\<rparr>) s) = 1"
proof -
  have h1: "0 < (\<Sum>s<4. alphaDot (forward_first (\<lambda>_. 1) \<lparr>alphaTilde = \<lambda>_. 0, alphaDot = \<lambda>_. 0, sum_v = 0, w_new = 0, llval = 0\<rparr>) s)"
    by (simp add: forward_first_weight)
  have h2: "0 < (\<Sum>s<4. alphaDot (forward_next (\<lambda>_ _. 1/4) (\<lambda>_. 1) (forward_first (\<lambda>_. 1) \<lparr>alphaTilde = \<lambda>_. 0, alphaDot = \<lambda>_. 0, sum_v = 0, w_new = 0, llval = 0\<rparr>)) s)"
    unfolding forward_next_weight
    by (simp add: forward_first_alphaTilde sum_lessThan_4)
  have h3: "0 < (\<Sum>s<4. alphaDot (individual_fs (\<lambda>_ _ _ _ _. 1) (\<lambda>_ _ _. 0) (\<lambda>_. 0) (\<lambda>_. 0)
                               (\<lambda>_. 0) (\<lambda>_. 0) (\<lambda>_. 0) 1 1 0
        \<lparr>alphaTilde = \<lambda>_. 0, alphaDot = \<lambda>_. 0, sum_v = 0, w_new = 0, llval = 0\<rparr>) s)"
    by (simp add: individual_fs_def forward_first_weight)
  have h4: "0 < (\<Sum>s<4. alphaDot (individual_ss (\<lambda>_ _ _ _ _. 1) (\<lambda>_ _ _ _. 0) (\<lambda>_. 0) (\<lambda>_. 0)
                               (\<lambda>_. 0) (\<lambda>_. 0) (\<lambda>_. 0) 1 1 0
        \<lparr>alphaTilde = \<lambda>_. 0, alphaDot = \<lambda>_. 0, sum_v = 0, w_new = 0, llval = 0\<rparr>) s)"
    by (simp add: individual_ss_def forward_first_weight)
  note a = rescaled_vector_sums_to_one [of "\<lambda>_. 1"
      "\<lparr>alphaTilde = \<lambda>_. 0, alphaDot = \<lambda>_. 0, sum_v = 0, w_new = 0, llval = 0\<rparr>" "\<lambda>_ _. 1/4"
      "\<lambda>_ _ _ _ _. 1" "\<lambda>_ _ _. 0" "\<lambda>_. 0" "\<lambda>_. 0" "\<lambda>_. 0" "\<lambda>_. 0" "\<lambda>_. 0" 1 1 0
      "\<lambda>_ _ _ _. 0"]
  note b = rescaled_vector_sums_to_one [of "\<lambda>_. 1" "forward_first (\<lambda>_. 1) \<lparr>alphaTilde = \<lambda>_. 0, alphaDot = \<lambda>_. 0, sum_v = 0, w_new = 0, llval = 0\<rparr>" "\<lambda>_ _. 1/4"]
  from h1 h2 h3 h4 a b show ?thesis by blast
qed

text \<open>
  C8, as amended: the phased function with one recombination fraction and the unphased
  sex-specific function take a parameter \<open>nThreads\<close>, for which 0 selects the maximum
  number of threads; the phased sex-specific function takes no such parameter.
\<close>

theorem thread_parameter:
  "''nThreads'' \<in> set ll_fs_scaled_err_c_params
   \<and> ''nThreads'' \<in> set ll_fs_up_ss_scaled_err_c_params
   \<and> ''nThreads'' \<notin> set ll_fs_ss_scaled_err_c_params
   \<and> set_up_threads maxThreads 0 = maxThreads"
  by (simp add: ll_fs_scaled_err_c_params_def ll_fs_up_ss_scaled_err_c_params_def
        ll_fs_ss_scaled_err_c_params_def set_up_threads_def)

text \<open>
  The statement of C8 for all three functions fails: \<open>ll_fs_ss_scaled_err_c\<close> has
  seven parameters, none of them a thread count.
\<close>

theorem thread_parameter_counterexample:
  "\<not> (''nThreads'' \<in> set ll_fs_scaled_err_c_params
      \<and> ''nThreads'' \<in> set ll_fs_ss_scaled_err_c_params
      \<and> ''nThreads'' \<in> set ll_fs_up_ss_scaled_err_c_params)"
  by (simp add: ll_fs_ss_scaled_err_c_params_def)

text \<open>
  C9: with at least one marker, every function addresses the cell of individual
  \<open>ind\<close> and marker \<open>snp\<close> of every matrix at the flat index \<open>ind + snp * nInd\<close>:
  the returned value is the recursion of the specification run on emissions looked up
  at \<open>cell nInd ind snp\<close> in the counts, the coefficients, \<open>Kab\<close> and (for the
  sex-specific phased function) \<open>Kaa\<close> and \<open>Kbb\<close>; the tables written by the two
  other functions hold at that index the densities of that cell, computed with the
  error rate of marker \<open>snp\<close>. The individual index varies fastest.
\<close>

theorem individual_major_layout:
  assumes "1 \<le> nSnps"
  shows "ll_fs_scaled_err_c Q T mx K0 st0 r ep ref alt bcoef Kab OPGP nInd nSnps nT =
           - (\<Sum>ind<nInd. snd (spec_forward (spec_emission_err Q OPGP bcoef ep ref alt Kab nInd ind)
                                             (\<lambda>l s1 s2. T s1 s2 (r l)) (nSnps - 1)))
       \<and> ll_fs_ss_scaled_err_c Q Tss st0 r Kaa Kab Kbb OPGP nInd nSnps =
           - (\<Sum>ind<nInd. snd (spec_forward (spec_emission Q OPGP Kaa Kab Kbb nInd ind)
                                 (\<lambda>l s1 s2. Tss s1 s2 (r l) (r (l + nSnps - 1))) (nSnps - 1)))
       \<and> ll_fs_up_ss_scaled_err_c Q Tss mx K0 sts r bcoef ep_c ref alt Kab OPGP nInd nSnps nT =
           - (\<Sum>ind<nInd. snd (spec_forward
                                 (spec_emission_err Q OPGP bcoef (\<lambda>_. ep_c) ref alt Kab nInd ind)
                                 (\<lambda>l s1 s2. Tss s1 s2 (r l) (r (l + nSnps - 1))) (nSnps - 1)))
       \<and> (ind < nInd \<and> snp < nSnps \<longrightarrow>
            fst (emission_tables_fs bcoef ep ref alt nInd nSnps K0) (cell nInd ind snp)
              = Kaa_density (bcoef (cell nInd ind snp)) (ep snp)
                            (ref (cell nInd ind snp)) (alt (cell nInd ind snp))
          \<and> snd (emission_tables_fs bcoef ep ref alt nInd nSnps K0) (cell nInd ind snp)
              = Kbb_density (bcoef (cell nInd ind snp)) (ep snp)
                            (ref (cell nInd ind snp)) (alt (cell nInd ind snp))
          \<and> fst (emission_tables_up bcoef ep_c ref alt nInd nSnps K0) (cell nInd ind snp)
              = Kaa_density (bcoef (cell nInd ind snp)) ep_c
                            (ref (cell nInd ind snp)) (alt (cell nInd ind snp))
          \<and> snd (emission_tables_up bcoef ep_c ref alt nInd nSnps K0) (cell nInd ind snp)
              = Kbb_density (bcoef (cell nInd ind snp)) ep_c
                            (ref (cell nInd ind snp)) (alt (cell nInd ind snp)))
       \<and> cell nInd (Suc ind) snp = Suc (cell nInd ind snp)
       \<and> cell nInd ind (Suc snp) = cell nInd ind snp + nInd"
proof -
  have tables: "fst (emission_tables_fs bcoef ep ref alt nInd nSnps K0) (cell nInd ind snp)
              = Kaa_density (bcoef (cell nInd ind snp)) (ep snp)
                            (ref (cell nInd ind snp)) (alt (cell nInd ind snp))
          \<and> snd (emission_tables_fs bcoef ep ref alt nInd nSnps K0) (cell nInd ind snp)
              = Kbb_density (bcoef (cell nInd ind snp)) (ep snp)
                            (ref (cell nInd ind snp)) (alt (cell nInd ind snp))
          \<and> fst (emission_tables_up bcoef ep_c ref alt nInd nSnps K0) (cell nInd ind snp)
              = Kaa_density (bcoef (cell nInd ind snp)) ep_c
                            (ref (cell nInd ind snp)) (alt (cell nInd ind snp))
          \<and> snd (emission_tables_up bcoef ep_c ref alt nInd nSnps K0) (cell nInd ind snp)
              = Kbb_density (bcoef (cell nInd ind snp)) ep_c
                            (ref (cell nInd ind snp)) (alt (cell nInd ind snp))"
    if "ind < nInd" and "snp < nSnps"
  proof -
    from that have pos: "0 < nInd" by simp
    from that pos show ?thesis
      by (simp add: emission_tables_fs_cells emission_tables_up_cells cell_div cell_less)
  qed
  have cells: "cell nInd (Suc ind) snp = Suc (cell nInd ind snp)"
    "cell nInd ind (Suc snp) = cell nInd ind snp + nInd"
    by (simp_all add: cell_def)
  show ?thesis
    using tables cells
    by (simp add: ll_fs_scaled_err_c_closed [OF assms] ll_fs_up_ss_scaled_err_c_closed [OF assms]
          ll_fs_ss_scaled_err_c_spec)
qed

theorem individual_major_layout_witness:
  "(1::nat) \<le> 2
   \<and> cell 2 0 1 = 2 \<and> cell 2 1 1 = 3 \<and> cell 2 1 0 = 1
   \<and> ll_fs_scaled_err_c (\<lambda>code Kaa Kab Kbb elem. if code = 1 then Kaa else 1) (\<lambda>_ _ _. 1/4) 1
        (\<lambda>_. 7, \<lambda>_. 9) \<lparr>alphaTilde = \<lambda>_. 5, alphaDot = \<lambda>_. 6, sum_v = 3, w_new = 4, llval = 8\<rparr>
        (\<lambda>_. 0) (\<lambda>snp. if snp = 1 then 1/2 else 1/3) (\<lambda>j. int j) (\<lambda>_. 0)
        (\<lambda>j. real j * 2 ^ j) (\<lambda>_. 0) (\<lambda>snp. int snp) 2 2 0
       = - (ln 2 + ln 3)
   \<and> ll_fs_ss_scaled_err_c (\<lambda>code Kaa Kab Kbb elem. if code = 1 then Kab else 1)
        (\<lambda>_ _ _ _. 1/4) \<lparr>alphaTilde = \<lambda>_. 5, alphaDot = \<lambda>_. 6, sum_v = 3, w_new = 4, llval = 8\<rparr>
        (\<lambda>_. 0) (\<lambda>_. 0) (\<lambda>j. real j) (\<lambda>_. 0) (\<lambda>snp. int snp) 2 2
       = - (ln 2 + ln 3)
   \<and> ll_fs_up_ss_scaled_err_c (\<lambda>code Kaa Kab Kbb elem. if code = 1 then Kbb else 1)
        (\<lambda>_ _ _ _. 1/4) 1 (\<lambda>_. 7, \<lambda>_. 9)
        (\<lambda>_. \<lparr>alphaTilde = \<lambda>_. 5, alphaDot = \<lambda>_. 6, sum_v = 3, w_new = 4, llval = 8\<rparr>)
        (\<lambda>_. 0) (\<lambda>j. real j * 2 ^ j) (1/2) (\<lambda>_. 0) (\<lambda>j. int j) (\<lambda>_. 0) (\<lambda>snp. int snp) 2 2 0
       = - (ln 2 + ln 3)
   \<and> fst (emission_tables_fs (\<lambda>j. real j * 2 ^ j) (\<lambda>snp. if snp = 1 then 1/2 else 1/3)
            (\<lambda>j. int j) (\<lambda>_. 0) 2 2 (\<lambda>_. 7, \<lambda>_. 9)) 2 = 2
   \<and> snd (emission_tables_up (\<lambda>j. real j * 2 ^ j) (1/2) (\<lambda>_. 0) (\<lambda>j. int j) 2 2
            (\<lambda>_. 7, \<lambda>_. 9)) 3 = 3"
proof -
  have h: "(1::nat) \<le> 2" by simp
  have c: "cell 2 0 1 = 2" "cell 2 1 1 = 3" "cell 2 1 0 = 1" "cell 2 0 0 = 0"
    by (simp_all add: cell_def)
  have n: "(2::nat) - 1 = Suc 0" and l: "{..<2::nat} = {0, 1}" by auto
  note a = individual_major_layout [OF h,
      where Q = "\<lambda>code Kaa Kab Kbb elem. if code = 1 then Kaa else 1"
      and T = "\<lambda>_ _ _. 1/4" and mx = 1 and ?K0.0 = "(\<lambda>_. 7, \<lambda>_. 9)"
      and ?st0.0 = "\<lparr>alphaTilde = \<lambda>_. 5, alphaDot = \<lambda>_. 6, sum_v = 3, w_new = 4, llval = 8\<rparr>"
      and r = "\<lambda>_. 0" and ep = "\<lambda>snp. if snp = 1 then 1/2 else 1/3" and ref = "\<lambda>j. int j"
      and alt = "\<lambda>_. 0" and bcoef = "\<lambda>j. real j * 2 ^ j" and Kab = "\<lambda>_. 0"
      and OPGP = "\<lambda>snp. int snp" and nInd = 2 and nT = 0 and ind = 0 and snp = 1,
      THEN conjunct1, unfolded n l]
  note b = individual_major_layout [OF h,
      where Q = "\<lambda>code Kaa Kab Kbb elem. if code = 1 then Kab else 1"
      and Tss = "\<lambda>_ _ _ _. 1/4"
      and ?st0.0 = "\<lparr>alphaTilde = \<lambda>_. 5, alphaDot = \<lambda>_. 6, sum_v = 3, w_new = 4, llval = 8\<rparr>"
      and r = "\<lambda>_. 0" and Kaa = "\<lambda>_. 0" and Kab = "\<lambda>j. real j" and Kbb = "\<lambda>_. 0"
      and OPGP = "\<lambda>snp. int snp" and nInd = 2,
      THEN conjunct2, THEN conjunct1, unfolded n l]
  note d = individual_major_layout [OF h,
      where Q = "\<lambda>code Kaa Kab Kbb elem. if code = 1 then Kbb else 1"
      and Tss = "\<lambda>_ _ _ _. 1/4" and mx = 1 and ?K0.0 = "(\<lambda>_. 7, \<lambda>_. 9)"
      and sts = "\<lambda>_. \<lparr>alphaTilde = \<lambda>_. 5, alphaDot = \<lambda>_. 6, sum_v = 3, w_new = 4, llval = 8\<rparr>"
      and r = "\<lambda>_. 0" and ep_c = "1/2" and ref = "\<lambda>_. 0" and alt = "\<lambda>j. int j"
      and bcoef = "\<lambda>j. real j * 2 ^ j" and Kab = "\<lambda>_. 0"
      and OPGP = "\<lambda>snp. int snp" and nInd = 2 and nT = 0,
      THEN conjunct2, THEN conjunct2, THEN conjunct1, unfolded n l]
  note e = individual_major_layout [OF h,
      where ?K0.0 = "(\<lambda>_. 7, \<lambda>_. 9)" and ep = "\<lambda>snp. if snp = 1 then 1/2 else 1/3"
      and ref = "\<lambda>j. int j" and alt = "\<lambda>_. 0" and bcoef = "\<lambda>j. real j * 2 ^ j"
      and nInd = 2 and ind = 0 and snp = 1,
      THEN conjunct2, THEN conjunct2, THEN conjunct2, THEN conjunct1, unfolded c]
  note f = individual_major_layout [OF h,
      where ?K0.0 = "(\<lambda>_. 7, \<lambda>_. 9)" and ep_c = "1/2"
      and ref = "\<lambda>_. 0" and alt = "\<lambda>j. int j" and bcoef = "\<lambda>j. real j * 2 ^ j"
      and nInd = 2 and ind = 1 and snp = 1,
      THEN conjunct2, THEN conjunct2, THEN conjunct2, THEN conjunct1, unfolded c]
  have va: "ll_fs_scaled_err_c (\<lambda>code Kaa Kab Kbb elem. if code = 1 then Kaa else 1) (\<lambda>_ _ _. 1/4) 1
        (\<lambda>_. 7, \<lambda>_. 9) \<lparr>alphaTilde = \<lambda>_. 5, alphaDot = \<lambda>_. 6, sum_v = 3, w_new = 4, llval = 8\<rparr>
        (\<lambda>_. 0) (\<lambda>snp. if snp = 1 then 1/2 else 1/3) (\<lambda>j. int j) (\<lambda>_. 0)
        (\<lambda>j. real j * 2 ^ j) (\<lambda>_. 0) (\<lambda>snp. int snp) 2 2 0
       = - (ln 2 + ln 3)"
    unfolding a
    by (simp add: spec_emission_err_def Kaa_density_def pow_c_def sum_lessThan_4 cell_def Let_def
          power_divide)
  have vb: "ll_fs_ss_scaled_err_c (\<lambda>code Kaa Kab Kbb elem. if code = 1 then Kab else 1)
        (\<lambda>_ _ _ _. 1/4) \<lparr>alphaTilde = \<lambda>_. 5, alphaDot = \<lambda>_. 6, sum_v = 3, w_new = 4, llval = 8\<rparr>
        (\<lambda>_. 0) (\<lambda>_. 0) (\<lambda>j. real j) (\<lambda>_. 0) (\<lambda>snp. int snp) 2 2
       = - (ln 2 + ln 3)"
    unfolding b
    by (simp add: spec_emission_def sum_lessThan_4 cell_def)
  have vd: "ll_fs_up_ss_scaled_err_c (\<lambda>code Kaa Kab Kbb elem. if code = 1 then Kbb else 1)
        (\<lambda>_ _ _ _. 1/4) 1 (\<lambda>_. 7, \<lambda>_. 9)
        (\<lambda>_. \<lparr>alphaTilde = \<lambda>_. 5, alphaDot = \<lambda>_. 6, sum_v = 3, w_new = 4, llval = 8\<rparr>)
        (\<lambda>_. 0) (\<lambda>j. real j * 2 ^ j) (1/2) (\<lambda>_. 0) (\<lambda>j. int j) (\<lambda>_. 0) (\<lambda>snp. int snp) 2 2 0
       = - (ln 2 + ln 3)"
    unfolding d
    by (simp add: spec_emission_err_def Kbb_density_def pow_c_def sum_lessThan_4 cell_def Let_def
          power_divide)
  from e f have vt: "fst (emission_tables_fs (\<lambda>j. real j * 2 ^ j) (\<lambda>snp. if snp = 1 then 1/2 else 1/3)
            (\<lambda>j. int j) (\<lambda>_. 0) 2 2 (\<lambda>_. 7, \<lambda>_. 9)) 2 = 2
     \<and> snd (emission_tables_up (\<lambda>j. real j * 2 ^ j) (1/2) (\<lambda>_. 0) (\<lambda>j. int j) 2 2
            (\<lambda>_. 7, \<lambda>_. 9)) 3 = 3"
    by (simp add: Kaa_density_def Kbb_density_def pow_c_def power_divide)
  from h c va vb vd vt show ?thesis by simp
qed

text \<open>
  C10: when the recombination fractions of a sex-specific function are the paternal
  sequence followed by the maternal sequence, each of length \<open>nSnps - 1\<close>, in one flat
  vector, the function computes the recursion in which the transition over gap \<open>l\<close>
  (before marker \<open>snp = l + 1\<close>) is called with the paternal fraction \<open>r_pat ! l\<close>,
  read at index \<open>snp - 1\<close>, as third and the maternal fraction \<open>r_mat ! l\<close>, read at index
  \<open>snp - 1 + (nSnps - 1)\<close>, as fourth argument.
\<close>

theorem sex_specific_recombination_vector:
  assumes "length r_pat = nSnps - 1" and "length r_mat = nSnps - 1"
  shows "ll_fs_ss_scaled_err_c Q Tss st0 (\<lambda>k. (r_pat @ r_mat) ! k) Kaa Kab Kbb OPGP nInd nSnps =
           - (\<Sum>ind<nInd. snd (spec_forward (spec_emission Q OPGP Kaa Kab Kbb nInd ind)
                                 (\<lambda>l s1 s2. Tss s1 s2 (r_pat ! l) (r_mat ! l)) (nSnps - 1)))
       \<and> ll_fs_up_ss_scaled_err_c Q Tss mx K0 sts (\<lambda>k. (r_pat @ r_mat) ! k) bcoef ep_c ref alt Kab
                                  config nInd nSnps nT =
           - (\<Sum>ind<nInd. snd (spec_forward
                (spec_emission Q config
                   (fst (emission_tables_up bcoef ep_c ref alt nInd nSnps K0)) Kab
                   (snd (emission_tables_up bcoef ep_c ref alt nInd nSnps K0)) nInd ind)
                (\<lambda>l s1 s2. Tss s1 s2 (r_pat ! l) (r_mat ! l)) (nSnps - 1)))
       \<and> length (r_pat @ r_mat) = 2 * (nSnps - 1)"
  unfolding ll_fs_ss_scaled_err_c_spec ll_fs_up_ss_scaled_err_c_spec
    sex_specific_transitions [OF assms(1)]
  using assms by simp

theorem sex_specific_recombination_vector_witness:
  "length [1/10 :: real] = 2 - 1 \<and> length [3/10 :: real] = 2 - 1
   \<and> ll_fs_ss_scaled_err_c (\<lambda>code Kaa Kab Kbb elem. Kab) (\<lambda>s1 s2 r_pat r_mat. r_pat + 2 * r_mat)
        \<lparr>alphaTilde = \<lambda>_. 0, alphaDot = \<lambda>_. 0, sum_v = 0, w_new = 0, llval = 0\<rparr>
        (\<lambda>k. ([1/10] @ [3/10]) ! k) (\<lambda>_. 0) (\<lambda>_. 1) (\<lambda>_. 0) (\<lambda>_. 0) 1 2 = - ln (14/5)
   \<and> ll_fs_up_ss_scaled_err_c (\<lambda>code Kaa Kab Kbb elem. Kab) (\<lambda>s1 s2 r_pat r_mat. r_pat + 2 * r_mat)
        1 (\<lambda>_. 0, \<lambda>_. 0) (\<lambda>_. \<lparr>alphaTilde = \<lambda>_. 0, alphaDot = \<lambda>_. 0, sum_v = 0, w_new = 0, llval = 0\<rparr>)
        (\<lambda>k. ([1/10] @ [3/10]) ! k) (\<lambda>_. 1) (1/100) (\<lambda>_. 0) (\<lambda>_. 0) (\<lambda>_. 1) (\<lambda>_. 0) 1 2 0
       = - ln (14/5)"
proof -
  have h1: "length [1/10 :: real] = 2 - 1" and h2: "length [3/10 :: real] = 2 - 1" by simp_all
  have n: "(2::nat) - 1 = Suc 0" by simp
  note a = sex_specific_recombination_vector [OF h1 h2, where Q = "\<lambda>code Kaa Kab Kbb elem. Kab"
      and Tss = "\<lambda>s1 s2 r_pat r_mat. r_pat + 2 * r_mat" and Kaa = "\<lambda>_. 0" and Kab = "\<lambda>_. 1"
      and Kbb = "\<lambda>_. 0" and OPGP = "\<lambda>_. 0" and nInd = 1 and mx = 1 and ?K0.0 = "(\<lambda>_. 0, \<lambda>_. 0)"
      and ?st0.0 = "\<lparr>alphaTilde = \<lambda>_. 0, alphaDot = \<lambda>_. 0, sum_v = 0, w_new = 0, llval = 0\<rparr>"
      and sts = "\<lambda>_. \<lparr>alphaTilde = \<lambda>_. 0, alphaDot = \<lambda>_. 0, sum_v = 0, w_new = 0, llval = 0\<rparr>" and bcoef = "\<lambda>_. 1"
      and ep_c = "1/100" and ref = "\<lambda>_. 0" and alt = "\<lambda>_. 0" and config = "\<lambda>_. 0" and nT = 0,
      unfolded n]
  from a show ?thesis
    by (simp add: spec_emission_def sum_lessThan_4)
qed

end
